theory Spec2Isabelle
  imports Main "HOL-Library.AList"
begin

section \<open>Data model of the plugin (index.ts)\<close>

text \<open>
  The plugin class of \<^verbatim>\<open>index.ts\<close> orchestrates collaborators that live in other modules
  (\<^verbatim>\<open>env\<close>, \<^verbatim>\<open>layer\<close>, \<^verbatim>\<open>tracing\<close>, \<^verbatim>\<open>wrapper\<close>, \<^verbatim>\<open>util\<close>, \<^verbatim>\<open>forwarder\<close>) and the
  Serverless framework objects it is constructed with. The enumerations and records below
  follow the declarations the class uses; mutation of the framework objects is explicit
  state passing.
\<close>

text \<open>\<^verbatim>\<open>TracingMode\<close> of \<^verbatim>\<open>templates/common\<close>, with the members the class assigns.\<close>

datatype TracingMode = NONE | DD_TRACE | XRAY | HYBRID

text \<open>
  \<^verbatim>\<open>RuntimeType\<close> of \<^verbatim>\<open>layer\<close>. The class names \<^verbatim>\<open>NODE\<close>, \<^verbatim>\<open>NODE_ES6\<close>, \<^verbatim>\<open>NODE_TS\<close> and
  \<^verbatim>\<open>UNSUPPORTED\<close>; every further member of the enumeration (the other supported runtime
  families) is an \<open>OTHER_SUPPORTED\<close> value.
\<close>

datatype RuntimeType = NODE | NODE_TS | NODE_ES6 | OTHER_SUPPORTED string | UNSUPPORTED

text \<open>The string-literal union \<^verbatim>\<open>"es6" | "node" | "typescript"\<close>; \<^verbatim>\<open>undefined\<close> is \<open>None\<close>.\<close>

datatype NodeModuleType = es6 | node | typescript

text \<open>\<^verbatim>\<open>enum TagKeys { Service = "service", Env = "env" }\<close>\<close>

datatype TagKeys = Service | Env

fun tagKey :: "TagKeys \<Rightarrow> string" where
  "tagKey Service = ''service''"
| "tagKey Env = ''env''"

text \<open>
  \<^verbatim>\<open>ExtendedFunctionDefinition\<close>: the handler path, the optional runtime string (field
  \<^verbatim>\<open>runtime\<close>, here \<open>fn_runtime\<close>) and the optional \<^verbatim>\<open>tags\<close> and \<^verbatim>\<open>environment\<close> objects
  (string-keyed, string-valued).
\<close>

record FunctionDefinition =
  handler :: string
  fn_runtime :: "string option"
  tags :: "(string \<rightharpoonup> string) option"
  environment :: "(string \<rightharpoonup> string) option"

text \<open>
  \<^verbatim>\<open>FunctionInfo\<close> of \<^verbatim>\<open>layer\<close>, with the fields the class reads. The function definition
  an info belongs to is the one stored under \<open>info_name\<close> in the service.
\<close>

record FunctionInfo =
  info_name :: string
  info_type :: RuntimeType
  info_runtime :: "string option"

text \<open>The fields of the resolved configuration (\<^verbatim>\<open>getConfig\<close>) that the class reads.\<close>

record Configuration =
  addLayers :: bool
  enableXrayTracing :: bool
  enableDDTracing :: bool
  enableTags :: bool
  forwarder :: "string option"
  nodeModuleType :: "NodeModuleType option"

record Provider =
  region :: string
  runtime :: "string option"

text \<open>
  The service manifest: its name (\<^verbatim>\<open>getServiceName()\<close>), the provider block, the
  functions object as an association list in key order (\<^verbatim>\<open>getAllFunctions()\<close> lists the
  keys, \<^verbatim>\<open>getFunction(name)\<close> looks one up), and everything else of the manifest, which
  only the collaborators read and write, as a value of type \<open>'x\<close>.
\<close>

record 'x Service =
  serviceName :: string
  provider :: Provider
  service_functions :: "(string \<times> FunctionDefinition) list"
  manifest :: 'x

definition getServiceName :: "'x Service \<Rightarrow> string" where
  "getServiceName svc = serviceName svc"

definition getAllFunctions :: "'x Service \<Rightarrow> string list" where
  "getAllFunctions svc = map fst (service_functions svc)"

text \<open>\<^verbatim>\<open>getFunction\<close> of the framework throws for a name that is no key: \<open>None\<close>.\<close>

definition getFunction :: "'x Service \<Rightarrow> string \<Rightarrow> FunctionDefinition option" where
  "getFunction svc functionName = map_of (service_functions svc) functionName"

text \<open>
  A call that changes the service, recorded in call order: the collaborators that mutate
  it and the tag method of the class, with the arguments passed. The record is a ghost
  field of the state; a phase appends to it as it makes the call.
\<close>

datatype call =
    SetEnvConfiguration Configuration
  | ApplyLayers string "FunctionInfo list"
  | ForceExcludeDepsFromWebpack
  | EnableTracing TracingMode
  | AddCloudWatchForwarderSubscriptions string
  | AddServiceAndEnvTags
  | RedirectHandlers "FunctionInfo list" bool

text \<open>
  The Serverless instance the plugin holds: the service, the stage the AWS provider
  resolves (\<^verbatim>\<open>getProvider("aws").getStage()\<close>), the lines written with \<^verbatim>\<open>cli.log\<close>, oldest
  first, and the recorded calls.
\<close>

record 'x Serverless =
  service :: "'x Service"
  stage :: string
  cli_log :: "string list"
  calls :: "call list"

text \<open>
  The imported collaborators, taken as parameters. Each is a total function of the
  service it is handed; the ones that mutate the service return the new one.
  \<^verbatim>\<open>applyLayers\<close> comes with the table of \<^verbatim>\<open>layers.json\<close> supplied, and the forwarder binder
  with the AWS provider; the binder also returns the list of error messages its promise
  resolves with. A collaborator that throws, or a promise that is rejected, is not part of
  the model.
\<close>

record 'x Collaborators =
  getConfig :: "'x Service \<Rightarrow> Configuration"
  setEnvConfiguration :: "Configuration \<Rightarrow> 'x Service \<Rightarrow> 'x Service"
  findHandlers :: "'x Service \<Rightarrow> string option \<Rightarrow> RuntimeType option \<Rightarrow> FunctionInfo list"
  applyLayers :: "string \<Rightarrow> FunctionInfo list \<Rightarrow> 'x Service \<Rightarrow> 'x Service"
  hasWebpackPlugin :: "'x Service \<Rightarrow> bool"
  forceExcludeDepsFromWebpack :: "'x Service \<Rightarrow> 'x Service"
  enableTracing :: "TracingMode \<Rightarrow> 'x Service \<Rightarrow> 'x Service"
  addCloudWatchForwarderSubscriptions :: "'x Service \<Rightarrow> string \<Rightarrow> 'x Service \<times> string list"
  redirectHandlers :: "FunctionInfo list \<Rightarrow> bool \<Rightarrow> 'x Service \<Rightarrow> 'x Service"

definition log :: "string \<Rightarrow> 'x Serverless \<Rightarrow> 'x Serverless" where
  "log msg s = s\<lparr>cli_log := cli_log s @ [msg]\<rparr>"

definition record_call :: "call \<Rightarrow> 'x Serverless \<Rightarrow> 'x Serverless" where
  "record_call c s = s\<lparr>calls := calls s @ [c]\<rparr>"


text \<open>
  Running a collaborator that mutates the service: the call is recorded and the service
  replaced by the one the collaborator returns.
\<close>

definition invoke :: "call \<Rightarrow> ('x Service \<Rightarrow> 'x Service) \<Rightarrow> 'x Serverless \<Rightarrow> 'x Serverless" where
  "invoke c f s = s\<lparr>service := f (service s), calls := calls s @ [c]\<rparr>"

text \<open>
  JavaScript's \<^verbatim>\<open>!v\<close> for a value that is a string or \<^verbatim>\<open>undefined\<close>: true for
  \<^verbatim>\<open>undefined\<close> and for the empty string.
\<close>

definition falsy :: "string option \<Rightarrow> bool" where
  "falsy v = (case v of None \<Rightarrow> True | Some str \<Rightarrow> str = [])"

section \<open>The lifecycle-hook table\<close>

text \<open>The two bound methods a hook can hold.\<close>

datatype Hook = BeforePackageFunction | AfterPackageFunction

definition hooks :: "(string \<times> Hook) list" where
  "hooks =
    [(''after:datadog:clean:init'', AfterPackageFunction),
     (''after:datadog:generate:init'', BeforePackageFunction),
     (''after:deploy:function:packageFunction'', AfterPackageFunction),
     (''after:invoke:local:invoke'', AfterPackageFunction),
     (''after:package:createDeploymentArtifacts'', AfterPackageFunction),
     (''after:package:initialize'', BeforePackageFunction),
     (''before:deploy:function:packageFunction'', BeforePackageFunction),
     (''before:invoke:local:invoke'', BeforePackageFunction),
     (''before:offline:start:init'', BeforePackageFunction),
     (''before:step-functions-offline:start'', BeforePackageFunction)]"

section \<open>Classification of the handlers\<close>

text \<open>The \<^verbatim>\<open>switch\<close> of \<^verbatim>\<open>getHandlers\<close>: the value of \<^verbatim>\<open>defaultNodeRuntime\<close> after it.\<close>

fun defaultNodeRuntime :: "NodeModuleType option \<Rightarrow> RuntimeType option" where
  "defaultNodeRuntime (Some es6) = Some NODE_ES6"
| "defaultNodeRuntime (Some typescript) = Some NODE_TS"
| "defaultNodeRuntime (Some node) = Some NODE"
| "defaultNodeRuntime None = None"

definition getHandlers ::
  "'x Collaborators \<Rightarrow> 'x Serverless \<Rightarrow> NodeModuleType option \<Rightarrow> FunctionInfo list" where
  "getHandlers ext s moduleType =
     (let defaultRuntime = runtime (provider (service s))
      in findHandlers ext (service s) defaultRuntime (defaultNodeRuntime moduleType))"

section \<open>Diagnostics for unsupported runtimes\<close>

fun debugLogHandlers :: "FunctionInfo list \<Rightarrow> 'x Serverless \<Rightarrow> 'x Serverless" where
  "debugLogHandlers [] s = s"
| "debugLogHandlers (h # hs) s =
     debugLogHandlers hs
       (if info_type h = UNSUPPORTED then
          (case info_runtime h of
             None \<Rightarrow> log (''Unable to determine runtime for function '' @ info_name h) s
           | Some r \<Rightarrow>
               log (''Unable to add Lambda Layers to function '' @ info_name h
                      @ '' with runtime '' @ r) s)
        else s)"

section \<open>Tag injection\<close>

text \<open>
  The body of the \<^verbatim>\<open>forEach\<close> callback on one function definition: \<^verbatim>\<open>tags\<close> becomes an
  object if it is not one, then each of the two keys is assigned where \<^verbatim>\<open>!tags[key]\<close> holds.
\<close>

definition withServiceAndEnvTags ::
  "string \<Rightarrow> string \<Rightarrow> FunctionDefinition \<Rightarrow> FunctionDefinition" where
  "withServiceAndEnvTags svcName stg functionDefintion =
     (let t0 = (case tags functionDefintion of None \<Rightarrow> Map.empty | Some t \<Rightarrow> t);
          t1 = (if falsy (t0 (tagKey Service)) then t0(tagKey Service \<mapsto> svcName) else t0);
          t2 = (if falsy (t1 (tagKey Env)) then t1(tagKey Env \<mapsto> stg) else t1)
      in functionDefintion\<lparr>tags := Some t2\<rparr>)"

text \<open>Writing through the reference \<^verbatim>\<open>getFunction\<close> returned: the stored definition changes.\<close>

definition setFunction :: "string \<Rightarrow> FunctionDefinition \<Rightarrow> 'x Serverless \<Rightarrow> 'x Serverless" where
  "setFunction functionName fd s =
     s\<lparr>service := (service s)\<lparr>service_functions :=
          AList.update functionName fd (service_functions (service s))\<rparr>\<rparr>"

text \<open>
  One round of the \<^verbatim>\<open>forEach\<close>. The names come from \<^verbatim>\<open>getAllFunctions\<close>, so the lookup
  finds a definition (\<open>getFunction_of_getAllFunctions\<close> below); the \<open>None\<close> branch is
  where the framework would throw.
\<close>

definition tagFunction :: "string \<Rightarrow> 'x Serverless \<Rightarrow> 'x Serverless" where
  "tagFunction functionName s =
     (case getFunction (service s) functionName of
        None \<Rightarrow> s
      | Some functionDefintion \<Rightarrow>
          setFunction functionName
            (withServiceAndEnvTags (getServiceName (service s)) (stage s) functionDefintion) s)"

definition addServiceAndEnvTags :: "'x Serverless \<Rightarrow> 'x Serverless" where
  "addServiceAndEnvTags s = fold tagFunction (getAllFunctions (service s)) s"

section \<open>The two phases\<close>

text \<open>The local \<^verbatim>\<open>tracingMode\<close> of \<^verbatim>\<open>beforePackageFunction\<close> after the \<^verbatim>\<open>if\<close> chain.\<close>

definition tracingMode :: "Configuration \<Rightarrow> TracingMode" where
  "tracingMode config =
     (if enableXrayTracing config \<and> enableDDTracing config then HYBRID
      else if enableDDTracing config then DD_TRACE
      else if enableXrayTracing config then XRAY
      else NONE)"

definition beforePackageFunction :: "'x Collaborators \<Rightarrow> 'x Serverless \<Rightarrow> 'x Serverless" where
  "beforePackageFunction ext s0 =
     (let s1 = log ''Auto instrumenting functions with Datadog'' s0;
          config = getConfig ext (service s1);
          s2 = invoke (SetEnvConfiguration config) (setEnvConfiguration ext config) s1;
          handlers = getHandlers ext s2 (nodeModuleType config);
          s3 = (if addLayers config then
                  (let s4 = log ''Adding Lambda Layers to functions'' s2;
                       s5 = debugLogHandlers handlers s4;
                       rgn = region (provider (service s5));
                       s6 = invoke (ApplyLayers rgn handlers) (applyLayers ext rgn handlers) s5
                   in if hasWebpackPlugin ext (service s6)
                      then invoke ForceExcludeDepsFromWebpack (forceExcludeDepsFromWebpack ext) s6
                      else s6)
                else log ''Skipping adding Lambda Layers, make sure you are packaging them yourself'' s2)
      in invoke (EnableTracing (tracingMode config)) (enableTracing ext (tracingMode config)) s3)"

text \<open>
  The forwarder block of \<^verbatim>\<open>afterPackageFunction\<close>: entered when \<^verbatim>\<open>config.forwarder\<close> is
  truthy; the awaited call resolves with the error messages, each of which is logged.
\<close>

definition subscribeForwarder ::
  "'x Collaborators \<Rightarrow> Configuration \<Rightarrow> 'x Serverless \<Rightarrow> 'x Serverless" where
  "subscribeForwarder ext config s =
     (case forwarder config of
        None \<Rightarrow> s
      | Some fw \<Rightarrow>
          if falsy (Some fw) then s
          else (let (svc, errors) = addCloudWatchForwarderSubscriptions ext (service s) fw
                in fold log errors
                     (s\<lparr>service := svc,
                        calls := calls s @ [AddCloudWatchForwarderSubscriptions fw]\<rparr>)))"

text \<open>The tag block of \<^verbatim>\<open>afterPackageFunction\<close>.\<close>

definition tagFunctions :: "Configuration \<Rightarrow> 'x Serverless \<Rightarrow> 'x Serverless" where
  "tagFunctions config s =
     (if enableTags config then
        addServiceAndEnvTags
          (record_call AddServiceAndEnvTags
             (log ''Adding service and environment tags to functions'' s))
      else s)"

definition afterPackageFunction :: "'x Collaborators \<Rightarrow> 'x Serverless \<Rightarrow> 'x Serverless" where
  "afterPackageFunction ext s0 =
     (let config = getConfig ext (service s0);
          s1 = subscribeForwarder ext config s0;
          s2 = tagFunctions config s1;
          handlers = getHandlers ext s2 (nodeModuleType config)
      in invoke (RedirectHandlers handlers (addLayers config))
           (redirectHandlers ext handlers (addLayers config)) s2)"

text \<open>The host running the hook registered for a lifecycle event, if there is one.\<close>

definition runHook :: "'x Collaborators \<Rightarrow> Hook \<Rightarrow> 'x Serverless \<Rightarrow> 'x Serverless" where
  "runHook ext h s =
     (case h of
        BeforePackageFunction \<Rightarrow> beforePackageFunction ext s
      | AfterPackageFunction \<Rightarrow> afterPackageFunction ext s)"

definition trigger :: "'x Collaborators \<Rightarrow> string \<Rightarrow> 'x Serverless \<Rightarrow> 'x Serverless" where
  "trigger ext event s =
     (case map_of hooks event of None \<Rightarrow> s | Some h \<Rightarrow> runHook ext h s)"


section \<open>The classifier, from its contract\<close>

text \<open>
  Modelled from the spec: the runtime lookup of \<^verbatim>\<open>findHandlers\<close> (module \<^verbatim>\<open>layer\<close>, not
  among the sources). The runtime string of a function is the declared one or, if absent,
  the service-wide default.
\<close>

definition effectiveRuntime :: "FunctionDefinition \<Rightarrow> string option \<Rightarrow> string option" where
  "effectiveRuntime fd defaultRuntime =
     (case fn_runtime fd of None \<Rightarrow> defaultRuntime | Some r \<Rightarrow> Some r)"

text \<open>
  Modelled from the spec: the Node family of \<^verbatim>\<open>RuntimeType\<close> (generic Node and its ES6-module
  and TypeScript-flavoured variants), which the \<^verbatim>\<open>layer\<close> module declares.
\<close>

definition isNodeFamily :: "RuntimeType \<Rightarrow> bool" where
  "isNodeFamily t = (t = NODE \<or> t = NODE_TS \<or> t = NODE_ES6)"

text \<open>
  Modelled from the spec: the classification of one runtime string by \<^verbatim>\<open>findHandlers\<close>
  (module \<^verbatim>\<open>layer\<close>, not among the sources), section 4.1. \<open>known\<close> is the table of
  recognised runtime strings. A recognised string yields its \<^verbatim>\<open>RuntimeType\<close>; for a
  Node-family runtime a present override replaces it; an absent or unrecognised string
  yields \<^verbatim>\<open>UNSUPPORTED\<close>.
\<close>

definition classify ::
  "(string \<rightharpoonup> RuntimeType) \<Rightarrow> string option \<Rightarrow> RuntimeType option \<Rightarrow> RuntimeType" where
  "classify known rt nodeOverride =
     (case rt of
        None \<Rightarrow> UNSUPPORTED
      | Some r \<Rightarrow>
          (case known r of
             None \<Rightarrow> UNSUPPORTED
           | Some t \<Rightarrow>
               if isNodeFamily t
               then (case nodeOverride of None \<Rightarrow> t | Some t' \<Rightarrow> t')
               else t))"

text \<open>
  Modelled from the spec: \<^verbatim>\<open>findHandlers\<close> of the \<^verbatim>\<open>layer\<close> module (not among the sources):
  one \<^verbatim>\<open>FunctionInfo\<close> per function of the service, in key order, carrying the name, the
  classification and the runtime string it was classified from.
\<close>

definition findHandlers_spec ::
  "(string \<rightharpoonup> RuntimeType) \<Rightarrow> 'x Service \<Rightarrow> string option \<Rightarrow> RuntimeType option
     \<Rightarrow> FunctionInfo list" where
  "findHandlers_spec known svc defaultRuntime nodeOverride =
     map (\<lambda>(name, fd).
            \<lparr>info_name = name,
             info_type = classify known (effectiveRuntime fd defaultRuntime) nodeOverride,
             info_runtime = effectiveRuntime fd defaultRuntime\<rparr>)
         (service_functions svc)"

section \<open>Observations and concrete instances\<close>

text \<open>The value stored under a tag key of a function, if the function and the key exist.\<close>

definition tagOf :: "'x Serverless \<Rightarrow> string \<Rightarrow> string \<Rightarrow> string option" where
  "tagOf s functionName key =
     (case getFunction (service s) functionName of
        None \<Rightarrow> None
      | Some fd \<Rightarrow> (case tags fd of None \<Rightarrow> None | Some t \<Rightarrow> t key))"

text \<open>
  The passes of the specification, and the pass a recorded call starts. Resolving the
  configuration into the environment and the bundler exclusion, which follows
  \<^verbatim>\<open>applyLayers\<close> inside the layer block, start none.
\<close>

datatype Pass =
  LayerAttachment | TracingInjection | ForwarderSubscription | TagInjection | HandlerRedirection

fun passOf :: "call \<Rightarrow> Pass option" where
  "passOf (SetEnvConfiguration _) = None"
| "passOf (ApplyLayers _ _) = Some LayerAttachment"
| "passOf ForceExcludeDepsFromWebpack = None"
| "passOf (EnableTracing _) = Some TracingInjection"
| "passOf (AddCloudWatchForwarderSubscriptions _) = Some ForwarderSubscription"
| "passOf AddServiceAndEnvTags = Some TagInjection"
| "passOf (RedirectHandlers _ _) = Some HandlerRedirection"

definition passes :: "call list \<Rightarrow> Pass list" where
  "passes cs = List.map_filter passOf cs"

text \<open>
  The values the phases compute on the way, named so that statements can refer to them:
  the service after \<^verbatim>\<open>setEnvConfiguration\<close>, the handlers \<^verbatim>\<open>beforePackageFunction\<close>
  classifies, the service after \<^verbatim>\<open>applyLayers\<close>, and the handlers
  \<^verbatim>\<open>afterPackageFunction\<close> classifies.
\<close>

definition configuredService :: "'x Collaborators \<Rightarrow> 'x Serverless \<Rightarrow> 'x Service" where
  "configuredService ext s = setEnvConfiguration ext (getConfig ext (service s)) (service s)"

definition classifiedBeforePackage :: "'x Collaborators \<Rightarrow> 'x Serverless \<Rightarrow> FunctionInfo list" where
  "classifiedBeforePackage ext s =
     findHandlers ext (configuredService ext s) (runtime (provider (configuredService ext s)))
       (defaultNodeRuntime (nodeModuleType (getConfig ext (service s))))"

definition layeredService :: "'x Collaborators \<Rightarrow> 'x Serverless \<Rightarrow> 'x Service" where
  "layeredService ext s =
     applyLayers ext (region (provider (configuredService ext s)))
       (classifiedBeforePackage ext s) (configuredService ext s)"

definition classifiedAfterPackage :: "'x Collaborators \<Rightarrow> 'x Serverless \<Rightarrow> FunctionInfo list" where
  "classifiedAfterPackage ext s =
     getHandlers ext
       (tagFunctions (getConfig ext (service s))
          (subscribeForwarder ext (getConfig ext (service s)) s))
       (nodeModuleType (getConfig ext (service s)))"

text \<open>
  The service the forwarder block of \<^verbatim>\<open>afterPackageFunction\<close> leaves: the one the binder
  returns when \<^verbatim>\<open>config.forwarder\<close> is truthy, the one it found otherwise.
\<close>

definition forwardedService :: "'x Collaborators \<Rightarrow> 'x Serverless \<Rightarrow> 'x Service" where
  "forwardedService ext s =
     (case forwarder (getConfig ext (service s)) of
        None \<Rightarrow> service s
      | Some fw \<Rightarrow>
          if fw = [] then service s
          else fst (addCloudWatchForwarderSubscriptions ext (service s) fw))"

text \<open>
  Two services that differ at most in the function definitions stored under their keys:
  what the tag block may change and what it must leave.
\<close>

definition sameButDefinitions :: "'x Service \<Rightarrow> 'x Service \<Rightarrow> bool" where
  "sameButDefinitions a b =
     (serviceName a = serviceName b \<and> provider a = provider b \<and> manifest a = manifest b
      \<and> getAllFunctions a = getAllFunctions b)"

text \<open>A service with one region, one default runtime and the given functions.\<close>

definition exampleServerless :: "(string \<times> FunctionDefinition) list \<Rightarrow> unit Serverless" where
  "exampleServerless fns =
     \<lparr>service = \<lparr>serviceName = ''my-service'',
                 provider = \<lparr>region = ''us-east-1'', runtime = Some ''nodejs18.x''\<rparr>,
                 service_functions = fns,
                 manifest = ()\<rparr>,
      stage = ''dev'', cli_log = [], calls = []\<rparr>"

definition exampleFunction ::
  "string option \<Rightarrow> (string \<rightharpoonup> string) option \<Rightarrow> FunctionDefinition" where
  "exampleFunction rt tgs =
     \<lparr>handler = ''handler.hello'', fn_runtime = rt, tags = tgs, environment = None\<rparr>"

definition exampleConfig :: Configuration where
  "exampleConfig =
     \<lparr>addLayers = True, enableXrayTracing = False, enableDDTracing = True,
      enableTags = True, forwarder = Some ''arn:aws:lambda:us-east-1:1:function:forwarder'',
      nodeModuleType = None\<rparr>"

text \<open>
  Collaborators that leave the service alone: a fixed configuration, a fixed
  classification, a fixed answer of the webpack test and fixed forwarder errors.
\<close>

definition stubCollaborators ::
  "Configuration \<Rightarrow> FunctionInfo list \<Rightarrow> bool \<Rightarrow> string list \<Rightarrow> unit Collaborators" where
  "stubCollaborators config infos webpack errors =
     \<lparr>getConfig = (\<lambda>svc. config),
      setEnvConfiguration = (\<lambda>c svc. svc),
      findHandlers = (\<lambda>svc defaultRuntime nodeOverride. infos),
      applyLayers = (\<lambda>rgn hs svc. svc),
      hasWebpackPlugin = (\<lambda>svc. webpack),
      forceExcludeDepsFromWebpack = (\<lambda>svc. svc),
      enableTracing = (\<lambda>mode svc. svc),
      addCloudWatchForwarderSubscriptions = (\<lambda>svc fw. (svc, errors)),
      redirectHandlers = (\<lambda>hs layered svc. svc)\<rparr>"

text \<open>
  Collaborators that leave a mark: each one that mutates the service appends its name
  to the manifest, here a list of names, so that the service shows which of them ran
  and in which order.
\<close>

definition markingCollaborators ::
  "Configuration \<Rightarrow> FunctionInfo list \<Rightarrow> bool \<Rightarrow> string list \<Rightarrow> string list Collaborators" where
  "markingCollaborators config infos webpack errors =
     \<lparr>getConfig = (\<lambda>svc. config),
      setEnvConfiguration = (\<lambda>c svc. svc\<lparr>manifest := manifest svc @ [''setEnvConfiguration'']\<rparr>),
      findHandlers = (\<lambda>svc defaultRuntime nodeOverride. infos),
      applyLayers = (\<lambda>rgn hs svc. svc\<lparr>manifest := manifest svc @ [''applyLayers'']\<rparr>),
      hasWebpackPlugin = (\<lambda>svc. webpack),
      forceExcludeDepsFromWebpack =
        (\<lambda>svc. svc\<lparr>manifest := manifest svc @ [''forceExcludeDepsFromWebpack'']\<rparr>),
      enableTracing = (\<lambda>mode svc. svc\<lparr>manifest := manifest svc @ [''enableTracing'']\<rparr>),
      addCloudWatchForwarderSubscriptions =
        (\<lambda>svc fw. (svc\<lparr>manifest := manifest svc @ [''addCloudWatchForwarderSubscriptions'']\<rparr>,
                   errors)),
      redirectHandlers =
        (\<lambda>hs layered svc. svc\<lparr>manifest := manifest svc @ [''redirectHandlers'']\<rparr>)\<rparr>"

definition markedServerless :: "(string \<times> FunctionDefinition) list \<Rightarrow> string list Serverless" where
  "markedServerless fns =
     \<lparr>service = \<lparr>serviceName = ''my-service'',
                 provider = \<lparr>region = ''us-east-1'', runtime = Some ''nodejs18.x''\<rparr>,
                 service_functions = fns,
                 manifest = []\<rparr>,
      stage = ''dev'', cli_log = [], calls = []\<rparr>"

definition exampleKnown :: "string \<rightharpoonup> RuntimeType" where
  "exampleKnown = [''nodejs18.x'' \<mapsto> NODE, ''python3.9'' \<mapsto> OTHER_SUPPORTED ''python'']"

definition goInfo :: FunctionInfo where
  "goInfo = \<lparr>info_name = ''hello'', info_type = UNSUPPORTED, info_runtime = Some ''go1.x''\<rparr>"

definition unknownInfo :: FunctionInfo where
  "unknownInfo = \<lparr>info_name = ''world'', info_type = UNSUPPORTED, info_runtime = None\<rparr>"

definition nodeInfo :: FunctionInfo where
  "nodeInfo = \<lparr>info_name = ''web'', info_type = NODE, info_runtime = Some ''nodejs18.x''\<rparr>"

section \<open>What logging, recording and invoking change\<close>

lemma service_log [simp]: "service (log m s) = service s"
  by (simp add: log_def)

lemma calls_log [simp]: "calls (log m s) = calls s"
  by (simp add: log_def)

lemma stage_log [simp]: "stage (log m s) = stage s"
  by (simp add: log_def)

lemma cli_log_log [simp]: "cli_log (log m s) = cli_log s @ [m]"
  by (simp add: log_def)

lemma service_record_call [simp]: "service (record_call c s) = service s"
  by (simp add: record_call_def)

lemma calls_record_call [simp]: "calls (record_call c s) = calls s @ [c]"
  by (simp add: record_call_def)

lemma stage_record_call [simp]: "stage (record_call c s) = stage s"
  by (simp add: record_call_def)

lemma cli_log_record_call [simp]: "cli_log (record_call c s) = cli_log s"
  by (simp add: record_call_def)

lemma service_invoke [simp]: "service (invoke c f s) = f (service s)"
  by (simp add: invoke_def)

lemma calls_invoke [simp]: "calls (invoke c f s) = calls s @ [c]"
  by (simp add: invoke_def)

lemma stage_invoke [simp]: "stage (invoke c f s) = stage s"
  by (simp add: invoke_def)

lemma cli_log_invoke [simp]: "cli_log (invoke c f s) = cli_log s"
  by (simp add: invoke_def)

lemma service_debugLogHandlers [simp]: "service (debugLogHandlers hs s) = service s"
  by (induction hs arbitrary: s) (simp_all split: option.split)

lemma calls_debugLogHandlers [simp]: "calls (debugLogHandlers hs s) = calls s"
  by (induction hs arbitrary: s) (simp_all split: option.split)

lemma stage_debugLogHandlers [simp]: "stage (debugLogHandlers hs s) = stage s"
  by (induction hs arbitrary: s) (simp_all split: option.split)

lemma service_fold_log [simp]: "service (fold log es s) = service s"
  by (induction es arbitrary: s) simp_all

lemma calls_fold_log [simp]: "calls (fold log es s) = calls s"
  by (induction es arbitrary: s) simp_all

lemma stage_fold_log [simp]: "stage (fold log es s) = stage s"
  by (induction es arbitrary: s) simp_all

lemma cli_log_fold_log [simp]: "cli_log (fold log es s) = cli_log s @ es"
  by (induction es arbitrary: s) simp_all

section \<open>The tag pass, function by function\<close>

text \<open>Tagging a definition that the pass has tagged changes nothing.\<close>

lemma withServiceAndEnvTags_idem:
  "withServiceAndEnvTags n st (withServiceAndEnvTags n st fd) = withServiceAndEnvTags n st fd"
  by (auto simp add: withServiceAndEnvTags_def Let_def falsy_def map_upd_triv fun_upd_twist
      split: option.splits)

text \<open>The names \<^verbatim>\<open>getAllFunctions\<close> lists are keys: \<^verbatim>\<open>getFunction\<close> does not throw on them.\<close>

lemma getFunction_of_getAllFunctions:
  "functionName \<in> set (getAllFunctions svc) \<Longrightarrow> \<exists>fd. getFunction svc functionName = Some fd"
  by (simp add: getAllFunctions_def getFunction_def map_of_eq_None_iff
      flip: not_None_eq)

lemma service_tagFunction:
  "service (tagFunction a s) =
     (case getFunction (service s) a of
        None \<Rightarrow> service s
      | Some fd \<Rightarrow>
          (service s)\<lparr>service_functions :=
             AList.update a (withServiceAndEnvTags (serviceName (service s)) (stage s) fd)
               (service_functions (service s))\<rparr>)"
  by (simp add: tagFunction_def setFunction_def getServiceName_def split: option.split)

lemma tagFunction_frame:
  "stage (tagFunction a s) = stage s"
  "cli_log (tagFunction a s) = cli_log s"
  "calls (tagFunction a s) = calls s"
  "serviceName (service (tagFunction a s)) = serviceName (service s)"
  "provider (service (tagFunction a s)) = provider (service s)"
  "manifest (service (tagFunction a s)) = manifest (service s)"
  by (simp_all add: tagFunction_def setFunction_def split: option.split)

lemma tagFunction_keys:
  "map fst (service_functions (service (tagFunction a s))) = map fst (service_functions (service s))"
proof (cases "map_of (service_functions (service s)) a")
  case None
  then show ?thesis by (simp add: tagFunction_def getFunction_def)
next
  case (Some fd)
  then have "a \<in> fst ` set (service_functions (service s))"
    by (metis map_of_eq_None_iff option.distinct(1))
  with Some show ?thesis
    by (simp add: tagFunction_def getFunction_def setFunction_def update_keys)
qed

lemma tagFunction_lookup:
  "map_of (service_functions (service (tagFunction a s))) n =
     (if n = a
      then map_option (withServiceAndEnvTags (serviceName (service s)) (stage s))
             (map_of (service_functions (service s)) n)
      else map_of (service_functions (service s)) n)"
  by (simp add: tagFunction_def setFunction_def getFunction_def getServiceName_def update_conv'
      split: option.split)

lemma fold_tagFunction_frame:
  "stage (fold tagFunction ns s) = stage s"
  "cli_log (fold tagFunction ns s) = cli_log s"
  "calls (fold tagFunction ns s) = calls s"
  "serviceName (service (fold tagFunction ns s)) = serviceName (service s)"
  "provider (service (fold tagFunction ns s)) = provider (service s)"
  "manifest (service (fold tagFunction ns s)) = manifest (service s)"
  "map fst (service_functions (service (fold tagFunction ns s))) = map fst (service_functions (service s))"
  by (induction ns arbitrary: s) (simp_all add: tagFunction_frame tagFunction_keys)

text \<open>
  After the loop a listed function holds the tagged definition, whether its name was
  visited once or more often; any other entry is as before.
\<close>

lemma fold_tagFunction_lookup:
  "map_of (service_functions (service (fold tagFunction ns s))) n =
     (if n \<in> set ns
      then map_option (withServiceAndEnvTags (serviceName (service s)) (stage s))
             (map_of (service_functions (service s)) n)
      else map_of (service_functions (service s)) n)"
proof (induction ns arbitrary: s)
  case Nil
  show ?case by simp
next
  case (Cons a ns)
  show ?case
    by (simp add: Cons.IH tagFunction_lookup tagFunction_frame option.map_comp comp_def
        withServiceAndEnvTags_idem)
qed

lemma tagFunction_fixed:
  assumes "\<And>fd. map_of (service_functions (service s)) a = Some fd \<Longrightarrow>
             withServiceAndEnvTags (serviceName (service s)) (stage s) fd = fd"
  shows "tagFunction a s = s"
proof (cases "map_of (service_functions (service s)) a")
  case None
  then show ?thesis by (simp add: tagFunction_def getFunction_def)
next
  case (Some fd)
  then show ?thesis
    using assms [OF Some]
    by (simp add: tagFunction_def getFunction_def getServiceName_def setFunction_def update_triv)
qed

lemma fold_tagFunction_fixed:
  assumes "\<And>a fd. a \<in> set ns \<Longrightarrow> map_of (service_functions (service s)) a = Some fd \<Longrightarrow>
             withServiceAndEnvTags (serviceName (service s)) (stage s) fd = fd"
  shows "fold tagFunction ns s = s"
  using assms
proof (induction ns)
  case Nil
  show ?case by simp
next
  case (Cons a ns)
  have "tagFunction a s = s"
    by (rule tagFunction_fixed) (rule Cons.prems, simp_all)
  moreover have "fold tagFunction ns s = s"
    by (rule Cons.IH) (rule Cons.prems, simp_all)
  ultimately show ?case by simp
qed

lemma addServiceAndEnvTags_idem:
  "addServiceAndEnvTags (addServiceAndEnvTags s) = addServiceAndEnvTags s"
proof -
  let ?ns = "getAllFunctions (service s)"
  let ?s' = "fold tagFunction ?ns s"
  have keys: "getAllFunctions (service ?s') = ?ns"
    by (simp add: getAllFunctions_def fold_tagFunction_frame)
  have "fold tagFunction ?ns ?s' = ?s'"
  proof (rule fold_tagFunction_fixed)
    fix a fd
    assume "a \<in> set ?ns" and "map_of (service_functions (service ?s')) a = Some fd"
    then obtain fd0 where "fd = withServiceAndEnvTags (serviceName (service s)) (stage s) fd0"
      by (auto simp add: fold_tagFunction_lookup)
    then show "withServiceAndEnvTags (serviceName (service ?s')) (stage ?s') fd = fd"
      by (simp add: fold_tagFunction_frame withServiceAndEnvTags_idem)
  qed
  then show ?thesis
    by (simp add: addServiceAndEnvTags_def keys)
qed

lemma getFunction_addServiceAndEnvTags:
  "getFunction (service (addServiceAndEnvTags s)) n =
     map_option (withServiceAndEnvTags (serviceName (service s)) (stage s))
       (getFunction (service s) n)"
proof (cases "n \<in> set (getAllFunctions (service s))")
  case True
  then show ?thesis
    by (simp add: addServiceAndEnvTags_def getFunction_def fold_tagFunction_lookup)
next
  case False
  then have "map_of (service_functions (service s)) n = None"
    by (simp add: getAllFunctions_def map_of_eq_None_iff)
  with False show ?thesis
    by (simp add: addServiceAndEnvTags_def getFunction_def fold_tagFunction_lookup)
qed

text \<open>The loop reads the service and the stage only.\<close>

lemma service_fold_tagFunction_cong:
  "service s = service s' \<Longrightarrow> stage s = stage s' \<Longrightarrow>
     service (fold tagFunction ns s) = service (fold tagFunction ns s')"
proof (induction ns arbitrary: s s')
  case Nil
  then show ?case by simp
next
  case (Cons a ns)
  have "service (tagFunction a s) = service (tagFunction a s')"
    using Cons.prems by (simp add: service_tagFunction split: option.split)
  moreover have "stage (tagFunction a s) = stage (tagFunction a s')"
    using Cons.prems by (simp add: tagFunction_frame)
  ultimately have "service (fold tagFunction ns (tagFunction a s))
      = service (fold tagFunction ns (tagFunction a s'))"
    by (rule Cons.IH)
  then show ?case by simp
qed

lemma service_tagFunctions:
  "service (tagFunctions config s) =
     (if enableTags config then service (addServiceAndEnvTags s) else service s)"
proof -
  have "service (fold tagFunction ns (record_call c (log m s))) = service (fold tagFunction ns s)"
    for ns c m
    by (rule service_fold_tagFunction_cong) simp_all
  then show ?thesis
    by (simp add: tagFunctions_def addServiceAndEnvTags_def getAllFunctions_def)
qed

lemma calls_tagFunctions:
  "calls (tagFunctions config s) =
     calls s @ (if enableTags config then [AddServiceAndEnvTags] else [])"
  by (simp add: tagFunctions_def addServiceAndEnvTags_def fold_tagFunction_frame)

lemma cli_log_tagFunctions:
  "cli_log (tagFunctions config s) =
     cli_log s @ (if enableTags config
                  then [''Adding service and environment tags to functions''] else [])"
  by (simp add: tagFunctions_def addServiceAndEnvTags_def fold_tagFunction_frame)

lemma stage_tagFunctions: "stage (tagFunctions config s) = stage s"
  by (simp add: tagFunctions_def addServiceAndEnvTags_def fold_tagFunction_frame)

section \<open>The phases, observed\<close>

lemma beforePackageFunction_calls:
  "calls (beforePackageFunction ext s) =
     calls s @ [SetEnvConfiguration (getConfig ext (service s))]
       @ (if addLayers (getConfig ext (service s))
          then ApplyLayers (region (provider (configuredService ext s)))
                 (classifiedBeforePackage ext s)
               # (if hasWebpackPlugin ext (layeredService ext s)
                  then [ForceExcludeDepsFromWebpack] else [])
          else [])
       @ [EnableTracing (tracingMode (getConfig ext (service s)))]"
  by (simp add: beforePackageFunction_def getHandlers_def Let_def configuredService_def
      classifiedBeforePackage_def layeredService_def)

lemma beforePackageFunction_service:
  "service (beforePackageFunction ext s) =
     enableTracing ext (tracingMode (getConfig ext (service s)))
       (if addLayers (getConfig ext (service s))
        then (if hasWebpackPlugin ext (layeredService ext s)
              then forceExcludeDepsFromWebpack ext (layeredService ext s)
              else layeredService ext s)
        else configuredService ext s)"
  by (simp add: beforePackageFunction_def getHandlers_def Let_def configuredService_def
      classifiedBeforePackage_def layeredService_def)

lemma cli_log_debugLogHandlers_cong:
  "cli_log a = cli_log b \<Longrightarrow>
     cli_log (debugLogHandlers hs a) = cli_log (debugLogHandlers hs b)"
proof (induction hs arbitrary: a b)
  case Nil
  then show ?case by simp
next
  case (Cons h hs)
  show ?case
    unfolding debugLogHandlers.simps
    by (rule Cons.IH) (simp add: Cons.prems split: option.split)
qed

lemma beforePackageFunction_cli_log:
  "cli_log (beforePackageFunction ext s) =
     (if addLayers (getConfig ext (service s))
      then cli_log (debugLogHandlers (classifiedBeforePackage ext s)
             (log ''Adding Lambda Layers to functions''
                (log ''Auto instrumenting functions with Datadog'' s)))
      else cli_log s @ [''Auto instrumenting functions with Datadog'',
             ''Skipping adding Lambda Layers, make sure you are packaging them yourself''])"
proof (cases "addLayers (getConfig ext (service s))")
  case True
  have "cli_log (debugLogHandlers hs (log m (invoke c f x)))
          = cli_log (debugLogHandlers hs (log m x))" for hs m c f and x :: "'a Serverless"
    by (rule cli_log_debugLogHandlers_cong) simp
  with True show ?thesis
    by (simp add: beforePackageFunction_def getHandlers_def Let_def configuredService_def
        classifiedBeforePackage_def)
next
  case False
  then show ?thesis
    by (simp add: beforePackageFunction_def Let_def)
qed

lemma service_subscribeForwarder_falsy:
  "falsy (forwarder config) \<Longrightarrow> subscribeForwarder ext config s = s"
  by (simp add: subscribeForwarder_def falsy_def split: option.splits)

lemma subscribeForwarder_truthy:
  assumes "forwarder config = Some fw" and "fw \<noteq> []"
    and "addCloudWatchForwarderSubscriptions ext (service s) fw = (svc, errors)"
  shows "service (subscribeForwarder ext config s) = svc"
    and "cli_log (subscribeForwarder ext config s) = cli_log s @ errors"
    and "calls (subscribeForwarder ext config s) = calls s @ [AddCloudWatchForwarderSubscriptions fw]"
    and "stage (subscribeForwarder ext config s) = stage s"
  using assms by (simp_all add: subscribeForwarder_def falsy_def)

lemma afterPackageFunction_calls:
  "calls (afterPackageFunction ext s) =
     calls (subscribeForwarder ext (getConfig ext (service s)) s)
       @ (if enableTags (getConfig ext (service s)) then [AddServiceAndEnvTags] else [])
       @ [RedirectHandlers (classifiedAfterPackage ext s) (addLayers (getConfig ext (service s)))]"
  by (simp add: afterPackageFunction_def Let_def classifiedAfterPackage_def calls_tagFunctions)

lemma afterPackageFunction_cli_log:
  "cli_log (afterPackageFunction ext s) =
     cli_log (subscribeForwarder ext (getConfig ext (service s)) s)
       @ (if enableTags (getConfig ext (service s))
          then [''Adding service and environment tags to functions''] else [])"
  by (simp add: afterPackageFunction_def Let_def cli_log_tagFunctions)

lemma afterPackageFunction_service:
  "service (afterPackageFunction ext s) =
     redirectHandlers ext (classifiedAfterPackage ext s) (addLayers (getConfig ext (service s)))
       (service (tagFunctions (getConfig ext (service s))
          (subscribeForwarder ext (getConfig ext (service s)) s)))"
  by (simp add: afterPackageFunction_def Let_def classifiedAfterPackage_def)

text \<open>The service after the forwarder block and after the tag block.\<close>

lemma service_subscribeForwarder:
  "service (subscribeForwarder ext (getConfig ext (service s)) s) = forwardedService ext s"
  by (simp add: subscribeForwarder_def forwardedService_def falsy_def split_beta
      split: option.split)

lemma stage_subscribeForwarder: "stage (subscribeForwarder ext config s) = stage s"
  by (simp add: subscribeForwarder_def split_beta split: option.split)

lemma getFunction_tagFunctions:
  "getFunction (service (tagFunctions config s)) n =
     (if enableTags config
      then map_option (withServiceAndEnvTags (serviceName (service s)) (stage s))
             (getFunction (service s) n)
      else getFunction (service s) n)"
  by (simp add: service_tagFunctions getFunction_addServiceAndEnvTags)

lemma tagFunctions_frame:
  "serviceName (service (tagFunctions config s)) = serviceName (service s)"
  "provider (service (tagFunctions config s)) = provider (service s)"
  "manifest (service (tagFunctions config s)) = manifest (service s)"
  "getAllFunctions (service (tagFunctions config s)) = getAllFunctions (service s)"
  by (simp_all add: service_tagFunctions addServiceAndEnvTags_def getAllFunctions_def
      fold_tagFunction_frame)

lemma getFunction_tagged_after_forwarder:
  "getFunction (service (tagFunctions (getConfig ext (service s))
       (subscribeForwarder ext (getConfig ext (service s)) s))) n =
     (if enableTags (getConfig ext (service s))
      then map_option (withServiceAndEnvTags (serviceName (forwardedService ext s)) (stage s))
             (getFunction (forwardedService ext s) n)
      else getFunction (forwardedService ext s) n)"
  by (simp add: getFunction_tagFunctions service_subscribeForwarder stage_subscribeForwarder)

lemma sameButDefinitions_tagged_after_forwarder:
  "sameButDefinitions
     (service (tagFunctions (getConfig ext (service s))
        (subscribeForwarder ext (getConfig ext (service s)) s)))
     (forwardedService ext s)"
  by (simp add: sameButDefinitions_def tagFunctions_frame service_subscribeForwarder)

lemma passes_simps:
  "passes [] = []"
  "passes (c # cs) = (case passOf c of None \<Rightarrow> passes cs | Some p \<Rightarrow> p # passes cs)"
  by (simp_all add: passes_def map_filter_simps split: option.split)

lemma passes_append: "passes (xs @ ys) = passes xs @ passes ys"
  by (induction xs) (simp_all add: passes_simps split: option.split)

section \<open>The claims\<close>

text \<open>
  Claim C1. The tracing mode of the before-package phase is defined for every
  configuration and follows the two tracing flags: both off gives \<open>NONE\<close>, only the
  Datadog flag gives \<open>DD_TRACE\<close>, only the X-Ray flag gives \<open>XRAY\<close>, both give
  \<open>HYBRID\<close>; and this is the mode the phase hands to \<^verbatim>\<open>enableTracing\<close>, its last call.
\<close>

theorem tracingMode_follows_flags:
  "tracingMode (config\<lparr>enableXrayTracing := False, enableDDTracing := False\<rparr>) = NONE
   \<and> tracingMode (config\<lparr>enableXrayTracing := False, enableDDTracing := True\<rparr>) = DD_TRACE
   \<and> tracingMode (config\<lparr>enableXrayTracing := True, enableDDTracing := False\<rparr>) = XRAY
   \<and> tracingMode (config\<lparr>enableXrayTracing := True, enableDDTracing := True\<rparr>) = HYBRID
   \<and> last (calls (beforePackageFunction ext s))
       = EnableTracing (tracingMode (getConfig ext (service s)))"
proof -
  have "last (calls (beforePackageFunction ext s))
          = EnableTracing (tracingMode (getConfig ext (service s)))"
    by (simp add: beforePackageFunction_calls)
  then show ?thesis
    by (simp add: tracingMode_def)
qed

theorem tracingMode_follows_flags_witness:
  "tracingMode (exampleConfig\<lparr>enableXrayTracing := True, enableDDTracing := True\<rparr>) = HYBRID
   \<and> tracingMode exampleConfig = DD_TRACE
   \<and> last (calls (beforePackageFunction (stubCollaborators exampleConfig [nodeInfo] False [])
              (exampleServerless [])))
       = EnableTracing DD_TRACE"
proof -
  have "exampleConfig\<lparr>enableXrayTracing := False, enableDDTracing := True\<rparr> = exampleConfig"
    by (simp add: exampleConfig_def)
  moreover have "getConfig (stubCollaborators exampleConfig [nodeInfo] False []) svc = exampleConfig"
    for svc
    by (simp add: stubCollaborators_def)
  ultimately show ?thesis
    using tracingMode_follows_flags
      [of exampleConfig "stubCollaborators exampleConfig [nodeInfo] False []" "exampleServerless []"]
    by simp
qed

text \<open>
  Claim C2 as stated, that the pass leaves every value already stored under the service
  key unchanged, fails for the empty string: \<^verbatim>\<open>!tags[TagKeys.Service]\<close> holds for it, so
  a function tagged \<^verbatim>\<open>{service: ""}\<close> gets the service name.
\<close>

theorem addServiceAndEnvTags_overwrites_empty_tag:
  "tagOf (exampleServerless [(''hello'', exampleFunction None (Some [''service'' \<mapsto> '''']))])
       ''hello'' (tagKey Service) = Some ''''
   \<and> tagOf (addServiceAndEnvTags
         (exampleServerless [(''hello'', exampleFunction None (Some [''service'' \<mapsto> '''']))]))
       ''hello'' (tagKey Service) = Some ''my-service''"
  by (simp add: tagOf_def getFunction_addServiceAndEnvTags)
     (simp add: getFunction_def exampleServerless_def exampleFunction_def
        withServiceAndEnvTags_def falsy_def)

text \<open>
  Claim C2, as amended. The tag pass is idempotent: running it a second time leaves the
  whole state as the first run left it. It overwrites no non-empty tag value: a value
  that a function holds under any tag key before the pass, and that is not the empty
  string, is the value under that key after the pass.
\<close>

theorem addServiceAndEnvTags_idempotent_keeps_nonempty:
  "addServiceAndEnvTags (addServiceAndEnvTags s) = addServiceAndEnvTags s
   \<and> (tagOf s n k = Some v \<and> v \<noteq> [] \<longrightarrow> tagOf (addServiceAndEnvTags s) n k = Some v)"
proof (intro conjI impI)
  show "addServiceAndEnvTags (addServiceAndEnvTags s) = addServiceAndEnvTags s"
    by (rule addServiceAndEnvTags_idem)
next
  assume pre: "tagOf s n k = Some v \<and> v \<noteq> []"
  then obtain fd t where fd: "getFunction (service s) n = Some fd"
    and t: "tags fd = Some t" and v: "t k = Some v" "v \<noteq> []"
    by (auto simp add: tagOf_def split: option.splits)
  have "tags (withServiceAndEnvTags (serviceName (service s)) (stage s) fd)
          = Some (let t1 = (if falsy (t ''service'') then t(''service'' \<mapsto> serviceName (service s)) else t)
                  in if falsy (t1 ''env'') then t1(''env'' \<mapsto> stage s) else t1)"
    by (simp add: withServiceAndEnvTags_def t Let_def)
  moreover have "(let t1 = (if falsy (t ''service'') then t(''service'' \<mapsto> serviceName (service s)) else t)
                  in if falsy (t1 ''env'') then t1(''env'' \<mapsto> stage s) else t1) k = Some v"
    using v by (auto simp add: Let_def falsy_def)
  ultimately show "tagOf (addServiceAndEnvTags s) n k = Some v"
    by (simp add: tagOf_def getFunction_addServiceAndEnvTags fd)
qed

theorem addServiceAndEnvTags_idempotent_keeps_nonempty_witness:
  "tagOf (exampleServerless [(''hello'', exampleFunction None (Some [''service'' \<mapsto> ''custom'']))])
       ''hello'' ''service'' = Some ''custom''
   \<and> ''custom'' \<noteq> []
   \<and> tagOf (addServiceAndEnvTags
         (exampleServerless [(''hello'', exampleFunction None (Some [''service'' \<mapsto> ''custom'']))]))
       ''hello'' ''service'' = Some ''custom''
   \<and> addServiceAndEnvTags (addServiceAndEnvTags
         (exampleServerless [(''hello'', exampleFunction None (Some [''service'' \<mapsto> ''custom'']))]))
       = addServiceAndEnvTags
         (exampleServerless [(''hello'', exampleFunction None (Some [''service'' \<mapsto> ''custom'']))])"
proof -
  let ?s = "exampleServerless [(''hello'', exampleFunction None (Some [''service'' \<mapsto> ''custom'']))]"
  have pre: "tagOf ?s ''hello'' ''service'' = Some ''custom''"
    by (simp add: tagOf_def getFunction_def exampleServerless_def exampleFunction_def)
  show ?thesis
    using addServiceAndEnvTags_idempotent_keeps_nonempty
            [of ?s "''hello''" "''service''" "''custom''"] pre
    by simp
qed


text \<open>
  Claim C3 as stated, that the stage is stored under the key \<^verbatim>\<open>environment\<close>, fails: the
  key is \<^verbatim>\<open>TagKeys.Env\<close>, the string \<^verbatim>\<open>env\<close>. For a function tagged
  \<^verbatim>\<open>{service: "custom"}\<close> and stage \<^verbatim>\<open>dev\<close> the tags after the pass are not
  \<^verbatim>\<open>{service: "custom", environment: "dev"}\<close>; nothing is stored under
  \<^verbatim>\<open>environment\<close>, and \<^verbatim>\<open>dev\<close> is stored under \<^verbatim>\<open>env\<close>.
\<close>

theorem tagFunctions_environment_key_counterexample:
  "map_option tags (getFunction (service (tagFunctions exampleConfig (exampleServerless
       [(''hello'', exampleFunction None (Some [''service'' \<mapsto> ''custom'']))]))) ''hello'')
     \<noteq> Some (Some [''service'' \<mapsto> ''custom'', ''environment'' \<mapsto> ''dev''])
   \<and> tagOf (tagFunctions exampleConfig (exampleServerless
         [(''hello'', exampleFunction None (Some [''service'' \<mapsto> ''custom'']))]))
       ''hello'' ''environment'' = None
   \<and> tagOf (tagFunctions exampleConfig (exampleServerless
         [(''hello'', exampleFunction None (Some [''service'' \<mapsto> ''custom'']))]))
       ''hello'' ''env'' = Some ''dev''"
proof -
  let ?fd = "exampleFunction None (Some [''service'' \<mapsto> ''custom''])"
  let ?s = "exampleServerless [(''hello'', ?fd)]"
  have tgs: "map_option tags (getFunction (service (tagFunctions exampleConfig ?s)) ''hello'')
           = Some (Some [''service'' \<mapsto> ''custom'', ''env'' \<mapsto> ''dev''])"
    by (simp add: service_tagFunctions getFunction_addServiceAndEnvTags exampleConfig_def)
       (simp add: getFunction_def exampleServerless_def exampleFunction_def
          withServiceAndEnvTags_def falsy_def)
  have neq: "[''service'' \<mapsto> ''custom'', ''env'' \<mapsto> ''dev'']
          \<noteq> [''service'' \<mapsto> ''custom'', ''environment'' \<mapsto> ''dev'']"
  proof
    assume "[''service'' \<mapsto> ''custom'', ''env'' \<mapsto> ''dev'']
          = [''service'' \<mapsto> ''custom'', ''environment'' \<mapsto> ''dev'']"
    then have "[''service'' \<mapsto> ''custom'', ''env'' \<mapsto> ''dev''] ''env''
          = [''service'' \<mapsto> ''custom'', ''environment'' \<mapsto> ''dev''] ''env''"
      by (rule fun_cong)
    then show False by simp
  qed
  from tgs obtain fd' where fd': "getFunction (service (tagFunctions exampleConfig ?s)) ''hello'' = Some fd'"
    and t': "tags fd' = Some [''service'' \<mapsto> ''custom'', ''env'' \<mapsto> ''dev'']"
    by auto
  show ?thesis
    using neq by (simp add: tgs tagOf_def fd' t')
qed

text \<open>
  Claim C3, as amended. With tag injection enabled, a function tagged
  \<^verbatim>\<open>{service: "custom"}\<close> and nothing else has, after the tag block, exactly the tags
  \<^verbatim>\<open>{service: "custom", env: stage}\<close>: the stage is stored under the key \<^verbatim>\<open>env\<close>.
\<close>

theorem tagFunctions_keeps_service_adds_env:
  assumes "enableTags config"
    and "getFunction (service s) n = Some fd"
    and "tags fd = Some [''service'' \<mapsto> ''custom'']"
  shows "map_option tags (getFunction (service (tagFunctions config s)) n)
           = Some (Some [''service'' \<mapsto> ''custom'', ''env'' \<mapsto> stage s])"
  using assms
  by (simp add: service_tagFunctions getFunction_addServiceAndEnvTags
      withServiceAndEnvTags_def falsy_def)

theorem tagFunctions_keeps_service_adds_env_witness:
  "enableTags exampleConfig
   \<and> getFunction (service (exampleServerless
         [(''hello'', exampleFunction None (Some [''service'' \<mapsto> ''custom'']))])) ''hello''
       = Some (exampleFunction None (Some [''service'' \<mapsto> ''custom'']))
   \<and> tags (exampleFunction None (Some [''service'' \<mapsto> ''custom''])) = Some [''service'' \<mapsto> ''custom'']
   \<and> map_option tags (getFunction (service (tagFunctions exampleConfig (exampleServerless
         [(''hello'', exampleFunction None (Some [''service'' \<mapsto> ''custom'']))]))) ''hello'')
       = Some (Some [''service'' \<mapsto> ''custom'', ''env'' \<mapsto> ''dev''])"
proof -
  let ?fd = "exampleFunction None (Some [''service'' \<mapsto> ''custom''])"
  let ?s = "exampleServerless [(''hello'', ?fd)]"
  have a: "enableTags exampleConfig" by (simp add: exampleConfig_def)
  have b: "getFunction (service ?s) ''hello'' = Some ?fd"
    by (simp add: getFunction_def exampleServerless_def)
  have c: "tags ?fd = Some [''service'' \<mapsto> ''custom'']"
    by (simp add: exampleFunction_def)
  have d: "stage ?s = ''dev''" by (simp add: exampleServerless_def)
  show ?thesis
    using tagFunctions_keeps_service_adds_env [OF a b c] a b c d by simp
qed


text \<open>
  Claim C4. Whatever lifecycle event triggers a phase, the phase runs its passes in one
  order. An event bound to \<^verbatim>\<open>beforePackageFunction\<close> runs layer attachment (when layers are
  added) and then tracing injection: \<^verbatim>\<open>enableTracing\<close> is applied to the service that the
  layer block leaves. An event bound to \<^verbatim>\<open>afterPackageFunction\<close> runs forwarder
  subscription (when a forwarder is configured), then tag injection (when tags are
  enabled), then handler redirection: \<^verbatim>\<open>redirectHandlers\<close> is applied to the service the
  tag block leaves, which is the one the forwarder block left with every function tagged.
\<close>

theorem phases_start_passes_in_order:
  "(map_of hooks event = Some BeforePackageFunction \<longrightarrow>
      passes (calls (trigger ext event s)) =
        passes (calls s)
          @ (if addLayers (getConfig ext (service s)) then [LayerAttachment] else [])
          @ [TracingInjection]
      \<and> service (trigger ext event s) =
          enableTracing ext (tracingMode (getConfig ext (service s)))
            (if addLayers (getConfig ext (service s))
             then (if hasWebpackPlugin ext (layeredService ext s)
                   then forceExcludeDepsFromWebpack ext (layeredService ext s)
                   else layeredService ext s)
             else configuredService ext s)
      \<and> layeredService ext s =
          applyLayers ext (region (provider (configuredService ext s)))
            (classifiedBeforePackage ext s)
            (setEnvConfiguration ext (getConfig ext (service s)) (service s)))
   \<and> (map_of hooks event = Some AfterPackageFunction \<longrightarrow>
      passes (calls (trigger ext event s)) =
        passes (calls s)
          @ (if falsy (forwarder (getConfig ext (service s))) then [] else [ForwarderSubscription])
          @ (if enableTags (getConfig ext (service s)) then [TagInjection] else [])
          @ [HandlerRedirection]
      \<and> service (trigger ext event s) =
          redirectHandlers ext (classifiedAfterPackage ext s)
            (addLayers (getConfig ext (service s)))
            (service (tagFunctions (getConfig ext (service s))
               (subscribeForwarder ext (getConfig ext (service s)) s)))
      \<and> service (subscribeForwarder ext (getConfig ext (service s)) s) = forwardedService ext s
      \<and> sameButDefinitions
          (service (tagFunctions (getConfig ext (service s))
             (subscribeForwarder ext (getConfig ext (service s)) s)))
          (forwardedService ext s)
      \<and> getFunction (service (tagFunctions (getConfig ext (service s))
             (subscribeForwarder ext (getConfig ext (service s)) s))) n =
          (if enableTags (getConfig ext (service s))
           then map_option
                  (withServiceAndEnvTags (serviceName (forwardedService ext s)) (stage s))
                  (getFunction (forwardedService ext s) n)
           else getFunction (forwardedService ext s) n))"
proof (intro conjI impI)
  assume "map_of hooks event = Some BeforePackageFunction"
  then have run: "trigger ext event s = beforePackageFunction ext s"
    by (simp add: trigger_def runHook_def)
  show "passes (calls (trigger ext event s)) =
        passes (calls s)
          @ (if addLayers (getConfig ext (service s)) then [LayerAttachment] else [])
          @ [TracingInjection]"
    by (simp add: run beforePackageFunction_calls passes_append passes_simps)
  show "service (trigger ext event s) =
          enableTracing ext (tracingMode (getConfig ext (service s)))
            (if addLayers (getConfig ext (service s))
             then (if hasWebpackPlugin ext (layeredService ext s)
                   then forceExcludeDepsFromWebpack ext (layeredService ext s)
                   else layeredService ext s)
             else configuredService ext s)"
    unfolding run by (rule beforePackageFunction_service)
  show "layeredService ext s =
          applyLayers ext (region (provider (configuredService ext s)))
            (classifiedBeforePackage ext s)
            (setEnvConfiguration ext (getConfig ext (service s)) (service s))"
    by (simp add: layeredService_def configuredService_def)
next
  assume "map_of hooks event = Some AfterPackageFunction"
  then have run: "trigger ext event s = afterPackageFunction ext s"
    by (simp add: trigger_def runHook_def)
  have fw: "passes (calls (subscribeForwarder ext (getConfig ext (service s)) s)) =
      passes (calls s)
        @ (if falsy (forwarder (getConfig ext (service s))) then [] else [ForwarderSubscription])"
  proof (cases "falsy (forwarder (getConfig ext (service s)))")
    case True
    then show ?thesis by (simp add: service_subscribeForwarder_falsy)
  next
    case False
    then obtain fw where fw: "forwarder (getConfig ext (service s)) = Some fw" "fw \<noteq> []"
      by (auto simp add: falsy_def split: option.splits)
    obtain svc errors where
      "addCloudWatchForwarderSubscriptions ext (service s) fw = (svc, errors)"
      by (cases "addCloudWatchForwarderSubscriptions ext (service s) fw")
    with fw False show ?thesis
      by (simp add: subscribeForwarder_truthy(3) passes_append passes_simps)
  qed
  show "passes (calls (trigger ext event s)) =
        passes (calls s)
          @ (if falsy (forwarder (getConfig ext (service s))) then [] else [ForwarderSubscription])
          @ (if enableTags (getConfig ext (service s)) then [TagInjection] else [])
          @ [HandlerRedirection]"
    by (simp add: run afterPackageFunction_calls passes_append passes_simps fw)
  show "service (trigger ext event s) =
          redirectHandlers ext (classifiedAfterPackage ext s)
            (addLayers (getConfig ext (service s)))
            (service (tagFunctions (getConfig ext (service s))
               (subscribeForwarder ext (getConfig ext (service s)) s)))"
    unfolding run by (rule afterPackageFunction_service)
  show "service (subscribeForwarder ext (getConfig ext (service s)) s) = forwardedService ext s"
    by (rule service_subscribeForwarder)
  show "sameButDefinitions
          (service (tagFunctions (getConfig ext (service s))
             (subscribeForwarder ext (getConfig ext (service s)) s)))
          (forwardedService ext s)"
    by (rule sameButDefinitions_tagged_after_forwarder)
  show "getFunction (service (tagFunctions (getConfig ext (service s))
             (subscribeForwarder ext (getConfig ext (service s)) s))) n =
          (if enableTags (getConfig ext (service s))
           then map_option
                  (withServiceAndEnvTags (serviceName (forwardedService ext s)) (stage s))
                  (getFunction (forwardedService ext s) n)
           else getFunction (forwardedService ext s) n)"
    by (rule getFunction_tagged_after_forwarder)
qed

theorem phases_start_passes_in_order_witness:
  "map_of hooks ''before:offline:start:init'' = Some BeforePackageFunction
   \<and> passes (calls (trigger (markingCollaborators exampleConfig [nodeInfo] True [''timeout''])
        ''before:offline:start:init'' (markedServerless [])))
       = [LayerAttachment, TracingInjection]
   \<and> manifest (service (trigger (markingCollaborators exampleConfig [nodeInfo] True [''timeout''])
        ''before:offline:start:init'' (markedServerless [])))
       = [''setEnvConfiguration'', ''applyLayers'', ''forceExcludeDepsFromWebpack'',
          ''enableTracing'']
   \<and> map_of hooks ''after:invoke:local:invoke'' = Some AfterPackageFunction
   \<and> passes (calls (trigger (markingCollaborators exampleConfig [nodeInfo] True [''timeout''])
        ''after:invoke:local:invoke'' (markedServerless [(''hello'', exampleFunction None None)])))
       = [ForwarderSubscription, TagInjection, HandlerRedirection]
   \<and> manifest (service (trigger (markingCollaborators exampleConfig [nodeInfo] True [''timeout''])
        ''after:invoke:local:invoke'' (markedServerless [(''hello'', exampleFunction None None)])))
       = [''addCloudWatchForwarderSubscriptions'', ''redirectHandlers'']
   \<and> tagOf (trigger (markingCollaborators exampleConfig [nodeInfo] True [''timeout''])
        ''after:invoke:local:invoke'' (markedServerless [(''hello'', exampleFunction None None)]))
        ''hello'' ''env'' = Some ''dev''"
proof -
  let ?ext = "markingCollaborators exampleConfig [nodeInfo] True [''timeout'']"
  let ?s = "markedServerless []"
  let ?t = "markedServerless [(''hello'', exampleFunction None None)]"
  let ?cfg = "getConfig ?ext (service ?t)"
  have b: "map_of hooks ''before:offline:start:init'' = Some BeforePackageFunction"
    by (simp add: hooks_def)
  have a: "map_of hooks ''after:invoke:local:invoke'' = Some AfterPackageFunction"
    by (simp add: hooks_def)
  have cfg: "getConfig ?ext svc = exampleConfig" for svc
    by (simp add: markingCollaborators_def)
  have f: "\<not> falsy (forwarder exampleConfig)" "addLayers exampleConfig" "enableTags exampleConfig"
    by (simp_all add: exampleConfig_def falsy_def)
  have c: "calls ?s = []" "calls ?t = []"
    by (simp_all add: markedServerless_def)
  note before = phases_start_passes_in_order
      [of "''before:offline:start:init''" ?ext ?s, THEN conjunct1, THEN mp, OF b]
  note after = phases_start_passes_in_order
      [of "''after:invoke:local:invoke''" ?ext ?t "''hello''", THEN conjunct2, THEN mp, OF a]
  have conf: "manifest (configuredService ?ext ?s) = [''setEnvConfiguration'']"
    by (simp add: configuredService_def markingCollaborators_def markedServerless_def)
  have lay: "manifest (layeredService ?ext ?s) = [''setEnvConfiguration'', ''applyLayers'']"
    using conf by (simp add: layeredService_def) (simp add: markingCollaborators_def)
  have web: "hasWebpackPlugin ?ext svc" for svc
    by (simp add: markingCollaborators_def)
  have m1: "manifest (service (trigger ?ext ''before:offline:start:init'' ?s))
      = [''setEnvConfiguration'', ''applyLayers'', ''forceExcludeDepsFromWebpack'',
         ''enableTracing'']"
    using before lay by (simp add: cfg f web) (simp add: markingCollaborators_def)
  have fwd: "forwardedService ?ext ?t
      = (service ?t)\<lparr>manifest := [''addCloudWatchForwarderSubscriptions'']\<rparr>"
    by (simp add: forwardedService_def cfg)
       (simp add: exampleConfig_def markingCollaborators_def markedServerless_def)
  have same: "manifest (service (tagFunctions ?cfg (subscribeForwarder ?ext ?cfg ?t)))
      = [''addCloudWatchForwarderSubscriptions'']"
    using after by (simp add: sameButDefinitions_def fwd)
  have fin: "service (trigger ?ext ''after:invoke:local:invoke'' ?t)
      = (service (tagFunctions ?cfg (subscribeForwarder ?ext ?cfg ?t)))
          \<lparr>manifest := manifest (service (tagFunctions ?cfg (subscribeForwarder ?ext ?cfg ?t)))
              @ [''redirectHandlers'']\<rparr>"
    using after by (simp add: markingCollaborators_def)
  have m2: "manifest (service (trigger ?ext ''after:invoke:local:invoke'' ?t))
      = [''addCloudWatchForwarderSubscriptions'', ''redirectHandlers'']"
    by (simp add: fin same)
  have "getFunction (service (tagFunctions ?cfg (subscribeForwarder ?ext ?cfg ?t))) ''hello''
      = Some (withServiceAndEnvTags ''my-service'' ''dev'' (exampleFunction None None))"
    using after by (simp add: cfg f fwd) (simp add: getFunction_def markedServerless_def)
  then have tg: "tagOf (trigger ?ext ''after:invoke:local:invoke'' ?t) ''hello'' ''env'' = Some ''dev''"
    by (simp add: tagOf_def fin getFunction_def)
       (simp add: withServiceAndEnvTags_def exampleFunction_def falsy_def)
  show ?thesis
    using before [THEN conjunct1] after [THEN conjunct1]
    by (simp add: a b cfg c f passes_simps m1 m2 tg)
qed

text \<open>
  Claim C5. The forwarder block of the after-package phase runs only for a truthy
  \<^verbatim>\<open>config.forwarder\<close>: otherwise the block leaves the state as it is. When it runs, the
  binder is called once with the target, each error it returns becomes one log line, in
  the order returned, and for any number of errors the phase goes on: the tag block
  works on the service the binder returned, tagging every function when tags are enabled
  and changing nothing else, and \<^verbatim>\<open>redirectHandlers\<close>, the last call, is applied to the
  service the tag block leaves; its result is the service of the phase.
\<close>

theorem forwarder_errors_are_logged_and_phase_proceeds:
  "(falsy (forwarder (getConfig ext (service s))) \<longrightarrow>
      subscribeForwarder ext (getConfig ext (service s)) s = s
      \<and> calls (afterPackageFunction ext s) =
          calls s
            @ (if enableTags (getConfig ext (service s)) then [AddServiceAndEnvTags] else [])
            @ [RedirectHandlers (classifiedAfterPackage ext s)
                 (addLayers (getConfig ext (service s)))]
      \<and> service (afterPackageFunction ext s) =
          redirectHandlers ext (classifiedAfterPackage ext s)
            (addLayers (getConfig ext (service s)))
            (service (tagFunctions (getConfig ext (service s)) s))
      \<and> sameButDefinitions (service (tagFunctions (getConfig ext (service s)) s)) (service s)
      \<and> getFunction (service (tagFunctions (getConfig ext (service s)) s)) n =
          (if enableTags (getConfig ext (service s))
           then map_option (withServiceAndEnvTags (serviceName (service s)) (stage s))
                  (getFunction (service s) n)
           else getFunction (service s) n))
   \<and> (forwarder (getConfig ext (service s)) = Some fw \<and> fw \<noteq> []
        \<and> addCloudWatchForwarderSubscriptions ext (service s) fw = (svc, errors) \<longrightarrow>
      cli_log (afterPackageFunction ext s) =
          cli_log s @ errors
            @ (if enableTags (getConfig ext (service s))
               then [''Adding service and environment tags to functions''] else [])
      \<and> calls (afterPackageFunction ext s) =
          calls s @ [AddCloudWatchForwarderSubscriptions fw]
            @ (if enableTags (getConfig ext (service s)) then [AddServiceAndEnvTags] else [])
            @ [RedirectHandlers (classifiedAfterPackage ext s)
                 (addLayers (getConfig ext (service s)))]
      \<and> service (subscribeForwarder ext (getConfig ext (service s)) s) = svc
      \<and> service (afterPackageFunction ext s) =
          redirectHandlers ext (classifiedAfterPackage ext s)
            (addLayers (getConfig ext (service s)))
            (service (tagFunctions (getConfig ext (service s))
               (subscribeForwarder ext (getConfig ext (service s)) s)))
      \<and> sameButDefinitions
          (service (tagFunctions (getConfig ext (service s))
             (subscribeForwarder ext (getConfig ext (service s)) s))) svc
      \<and> getFunction (service (tagFunctions (getConfig ext (service s))
             (subscribeForwarder ext (getConfig ext (service s)) s))) n =
          (if enableTags (getConfig ext (service s))
           then map_option (withServiceAndEnvTags (serviceName svc) (stage s)) (getFunction svc n)
           else getFunction svc n))"
proof (intro conjI impI)
  assume off: "falsy (forwarder (getConfig ext (service s)))"
  then show same: "subscribeForwarder ext (getConfig ext (service s)) s = s"
    by (rule service_subscribeForwarder_falsy)
  show "calls (afterPackageFunction ext s) =
          calls s
            @ (if enableTags (getConfig ext (service s)) then [AddServiceAndEnvTags] else [])
            @ [RedirectHandlers (classifiedAfterPackage ext s)
                 (addLayers (getConfig ext (service s)))]"
    by (simp add: afterPackageFunction_calls same)
  show "service (afterPackageFunction ext s) =
          redirectHandlers ext (classifiedAfterPackage ext s)
            (addLayers (getConfig ext (service s)))
            (service (tagFunctions (getConfig ext (service s)) s))"
    by (simp add: afterPackageFunction_service same)
  show "sameButDefinitions (service (tagFunctions (getConfig ext (service s)) s)) (service s)"
    by (simp add: sameButDefinitions_def tagFunctions_frame)
  show "getFunction (service (tagFunctions (getConfig ext (service s)) s)) n =
          (if enableTags (getConfig ext (service s))
           then map_option (withServiceAndEnvTags (serviceName (service s)) (stage s))
                  (getFunction (service s) n)
           else getFunction (service s) n)"
    by (rule getFunction_tagFunctions)
next
  assume on: "forwarder (getConfig ext (service s)) = Some fw \<and> fw \<noteq> []
        \<and> addCloudWatchForwarderSubscriptions ext (service s) fw = (svc, errors)"
  then have lg: "cli_log (subscribeForwarder ext (getConfig ext (service s)) s)
      = cli_log s @ errors"
    by (simp add: subscribeForwarder_truthy(2))
  from on have cl: "calls (subscribeForwarder ext (getConfig ext (service s)) s)
      = calls s @ [AddCloudWatchForwarderSubscriptions fw]"
    by (simp add: subscribeForwarder_truthy(3))
  from on have fwd: "forwardedService ext s = svc"
    by (simp add: forwardedService_def)
  show "cli_log (afterPackageFunction ext s) =
          cli_log s @ errors
            @ (if enableTags (getConfig ext (service s))
               then [''Adding service and environment tags to functions''] else [])"
    by (simp add: afterPackageFunction_cli_log lg)
  show "calls (afterPackageFunction ext s) =
          calls s @ [AddCloudWatchForwarderSubscriptions fw]
            @ (if enableTags (getConfig ext (service s)) then [AddServiceAndEnvTags] else [])
            @ [RedirectHandlers (classifiedAfterPackage ext s)
                 (addLayers (getConfig ext (service s)))]"
    by (simp add: afterPackageFunction_calls cl)
  show "service (subscribeForwarder ext (getConfig ext (service s)) s) = svc"
    using on by (simp add: subscribeForwarder_truthy(1))
  show "service (afterPackageFunction ext s) =
          redirectHandlers ext (classifiedAfterPackage ext s)
            (addLayers (getConfig ext (service s)))
            (service (tagFunctions (getConfig ext (service s))
               (subscribeForwarder ext (getConfig ext (service s)) s)))"
    by (rule afterPackageFunction_service)
  show "sameButDefinitions
          (service (tagFunctions (getConfig ext (service s))
             (subscribeForwarder ext (getConfig ext (service s)) s))) svc"
    using sameButDefinitions_tagged_after_forwarder [of ext s] by (simp add: fwd)
  show "getFunction (service (tagFunctions (getConfig ext (service s))
             (subscribeForwarder ext (getConfig ext (service s)) s))) n =
          (if enableTags (getConfig ext (service s))
           then map_option (withServiceAndEnvTags (serviceName svc) (stage s)) (getFunction svc n)
           else getFunction svc n)"
    using getFunction_tagged_after_forwarder [of ext s n] by (simp add: fwd)
qed

theorem forwarder_errors_are_logged_and_phase_proceeds_witness:
  "forwarder exampleConfig = Some ''arn:aws:lambda:us-east-1:1:function:forwarder''
   \<and> ''arn:aws:lambda:us-east-1:1:function:forwarder'' \<noteq> []
   \<and> addCloudWatchForwarderSubscriptions
        (markingCollaborators exampleConfig [nodeInfo] False
           [''no log group for hello'', ''throttled''])
        (service (markedServerless [(''hello'', exampleFunction None None)]))
        ''arn:aws:lambda:us-east-1:1:function:forwarder''
       = ((service (markedServerless [(''hello'', exampleFunction None None)]))
             \<lparr>manifest := [''addCloudWatchForwarderSubscriptions'']\<rparr>,
          [''no log group for hello'', ''throttled''])
   \<and> cli_log (afterPackageFunction
        (markingCollaborators exampleConfig [nodeInfo] False
           [''no log group for hello'', ''throttled''])
        (markedServerless [(''hello'', exampleFunction None None)]))
       = [''no log group for hello'', ''throttled'',
          ''Adding service and environment tags to functions'']
   \<and> calls (afterPackageFunction
        (markingCollaborators exampleConfig [nodeInfo] False
           [''no log group for hello'', ''throttled''])
        (markedServerless [(''hello'', exampleFunction None None)]))
       = [AddCloudWatchForwarderSubscriptions ''arn:aws:lambda:us-east-1:1:function:forwarder'',
          AddServiceAndEnvTags, RedirectHandlers [nodeInfo] True]
   \<and> manifest (service (afterPackageFunction
        (markingCollaborators exampleConfig [nodeInfo] False
           [''no log group for hello'', ''throttled''])
        (markedServerless [(''hello'', exampleFunction None None)])))
       = [''addCloudWatchForwarderSubscriptions'', ''redirectHandlers'']
   \<and> tagOf (afterPackageFunction
        (markingCollaborators exampleConfig [nodeInfo] False
           [''no log group for hello'', ''throttled''])
        (markedServerless [(''hello'', exampleFunction None None)])) ''hello'' ''service''
       = Some ''my-service''
   \<and> falsy (forwarder (exampleConfig\<lparr>forwarder := None\<rparr>))
   \<and> calls (afterPackageFunction
        (markingCollaborators (exampleConfig\<lparr>forwarder := None\<rparr>) [nodeInfo] False [''throttled''])
        (markedServerless [(''hello'', exampleFunction None None)]))
       = [AddServiceAndEnvTags, RedirectHandlers [nodeInfo] True]
   \<and> manifest (service (afterPackageFunction
        (markingCollaborators (exampleConfig\<lparr>forwarder := None\<rparr>) [nodeInfo] False [''throttled''])
        (markedServerless [(''hello'', exampleFunction None None)])))
       = [''redirectHandlers'']"
proof -
  let ?fw = "''arn:aws:lambda:us-east-1:1:function:forwarder''"
  let ?ext = "markingCollaborators exampleConfig [nodeInfo] False
                [''no log group for hello'', ''throttled'']"
  let ?off = "markingCollaborators (exampleConfig\<lparr>forwarder := None\<rparr>) [nodeInfo] False
                [''throttled'']"
  let ?s = "markedServerless [(''hello'', exampleFunction None None)]"
  let ?svc = "(service ?s)\<lparr>manifest := [''addCloudWatchForwarderSubscriptions'']\<rparr>"
  have cfg: "getConfig ?ext svc = exampleConfig"
    "getConfig ?off svc = exampleConfig\<lparr>forwarder := None\<rparr>" for svc
    by (simp_all add: markingCollaborators_def)
  have fw: "forwarder exampleConfig = Some ?fw" "enableTags exampleConfig" "addLayers exampleConfig"
    by (simp_all add: exampleConfig_def)
  have bind: "addCloudWatchForwarderSubscriptions ?ext (service ?s) ?fw
      = (?svc, [''no log group for hello'', ''throttled''])"
    by (simp add: markingCollaborators_def markedServerless_def)
  have hs: "classifiedAfterPackage ?ext ?s = [nodeInfo]" "classifiedAfterPackage ?off ?s = [nodeInfo]"
    by (simp_all add: classifiedAfterPackage_def getHandlers_def markingCollaborators_def)
  have init: "cli_log ?s = []" "calls ?s = []" "stage ?s = ''dev''"
    by (simp_all add: markedServerless_def)
  have off: "falsy (forwarder (getConfig ?off (service ?s)))"
    by (simp add: cfg falsy_def)
  have pre: "forwarder (getConfig ?ext (service ?s)) = Some ?fw \<and> ?fw \<noteq> []
      \<and> addCloudWatchForwarderSubscriptions ?ext (service ?s) ?fw
          = (?svc, [''no log group for hello'', ''throttled''])"
    using bind by (simp add: cfg fw)
  note on = forwarder_errors_are_logged_and_phase_proceeds
      [of ?ext ?s "''hello''" ?fw ?svc "[''no log group for hello'', ''throttled'']",
       THEN conjunct2, THEN mp, OF pre]
  note no = forwarder_errors_are_logged_and_phase_proceeds
      [of ?off ?s "''hello''", THEN conjunct1, THEN mp, OF off]
  let ?tagged = "service (tagFunctions (getConfig ?ext (service ?s))
                   (subscribeForwarder ?ext (getConfig ?ext (service ?s)) ?s))"
  have man: "manifest ?tagged = [''addCloudWatchForwarderSubscriptions'']"
    using on by (simp add: sameButDefinitions_def)
  have fin: "service (afterPackageFunction ?ext ?s)
      = ?tagged\<lparr>manifest := manifest ?tagged @ [''redirectHandlers'']\<rparr>"
    using on by (simp add: markingCollaborators_def)
  have m1: "manifest (service (afterPackageFunction ?ext ?s))
      = [''addCloudWatchForwarderSubscriptions'', ''redirectHandlers'']"
    by (simp add: fin man)
  have "getFunction ?tagged ''hello''
      = Some (withServiceAndEnvTags ''my-service'' ''dev'' (exampleFunction None None))"
    using on by (simp add: cfg fw init) (simp add: getFunction_def markedServerless_def)
  then have tg: "tagOf (afterPackageFunction ?ext ?s) ''hello'' ''service'' = Some ''my-service''"
    by (simp add: tagOf_def fin getFunction_def)
       (simp add: withServiceAndEnvTags_def exampleFunction_def falsy_def)
  let ?tagged0 = "service (tagFunctions (getConfig ?off (service ?s)) ?s)"
  have man0: "manifest ?tagged0 = []"
    using no by (simp add: sameButDefinitions_def) (simp add: markedServerless_def)
  have fin0: "service (afterPackageFunction ?off ?s)
      = ?tagged0\<lparr>manifest := manifest ?tagged0 @ [''redirectHandlers'']\<rparr>"
    using no by (simp add: markingCollaborators_def)
  have m0: "manifest (service (afterPackageFunction ?off ?s)) = [''redirectHandlers'']"
    by (simp add: fin0 man0)
  have c0: "calls (afterPackageFunction ?off ?s)
      = [AddServiceAndEnvTags, RedirectHandlers [nodeInfo] True]"
    using no [THEN conjunct2, THEN conjunct1] by (simp add: cfg fw hs init)
  have l1: "cli_log (afterPackageFunction ?ext ?s)
      = [''no log group for hello'', ''throttled'',
         ''Adding service and environment tags to functions'']"
    using on [THEN conjunct1] by (simp add: cfg fw init)
  have c1: "calls (afterPackageFunction ?ext ?s)
      = [AddCloudWatchForwarderSubscriptions ?fw, AddServiceAndEnvTags,
         RedirectHandlers [nodeInfo] True]"
    using on [THEN conjunct2, THEN conjunct1] by (simp add: cfg fw hs init)
  show ?thesis
    by (simp add: fw(1) bind l1 c1 m1 tg m0 c0 falsy_def)
qed

text \<open>
  Claim C6. With \<^verbatim>\<open>addLayers\<close> off, the before-package phase calls neither
  \<^verbatim>\<open>applyLayers\<close> nor the webpack exclusion: it resolves the configuration into the
  environment, logs that layers are skipped and enables tracing, so the service that
  reaches \<^verbatim>\<open>enableTracing\<close> is the one \<^verbatim>\<open>setEnvConfiguration\<close> left. With \<^verbatim>\<open>addLayers\<close> on,
  \<^verbatim>\<open>applyLayers\<close> is called, and the webpack exclusion follows it exactly when
  \<^verbatim>\<open>hasWebpackPlugin\<close> holds of the service.
\<close>

theorem layer_block_is_gated:
  "(\<not> addLayers (getConfig ext (service s)) \<longrightarrow>
      calls (beforePackageFunction ext s) =
        calls s @ [SetEnvConfiguration (getConfig ext (service s)),
                   EnableTracing (tracingMode (getConfig ext (service s)))]
      \<and> service (beforePackageFunction ext s) =
          enableTracing ext (tracingMode (getConfig ext (service s))) (configuredService ext s)
      \<and> cli_log (beforePackageFunction ext s) =
          cli_log s @ [''Auto instrumenting functions with Datadog'',
            ''Skipping adding Lambda Layers, make sure you are packaging them yourself''])
   \<and> (addLayers (getConfig ext (service s)) \<longrightarrow>
      calls (beforePackageFunction ext s) =
        calls s @ [SetEnvConfiguration (getConfig ext (service s)),
                   ApplyLayers (region (provider (configuredService ext s)))
                     (classifiedBeforePackage ext s)]
          @ (if hasWebpackPlugin ext (layeredService ext s)
             then [ForceExcludeDepsFromWebpack] else [])
          @ [EnableTracing (tracingMode (getConfig ext (service s)))]
      \<and> service (beforePackageFunction ext s) =
          enableTracing ext (tracingMode (getConfig ext (service s)))
            (if hasWebpackPlugin ext (layeredService ext s)
             then forceExcludeDepsFromWebpack ext (layeredService ext s)
             else layeredService ext s))"
  by (simp add: beforePackageFunction_calls beforePackageFunction_service
      beforePackageFunction_cli_log)

theorem layer_block_is_gated_witness:
  "\<not> addLayers (exampleConfig\<lparr>addLayers := False\<rparr>)
   \<and> calls (beforePackageFunction
        (stubCollaborators (exampleConfig\<lparr>addLayers := False\<rparr>) [nodeInfo] True [])
        (exampleServerless []))
       = [SetEnvConfiguration (exampleConfig\<lparr>addLayers := False\<rparr>), EnableTracing DD_TRACE]
   \<and> addLayers exampleConfig
   \<and> calls (beforePackageFunction (stubCollaborators exampleConfig [nodeInfo] True [])
        (exampleServerless []))
       = [SetEnvConfiguration exampleConfig, ApplyLayers ''us-east-1'' [nodeInfo],
          ForceExcludeDepsFromWebpack, EnableTracing DD_TRACE]
   \<and> calls (beforePackageFunction (stubCollaborators exampleConfig [nodeInfo] False [])
        (exampleServerless []))
       = [SetEnvConfiguration exampleConfig, ApplyLayers ''us-east-1'' [nodeInfo],
          EnableTracing DD_TRACE]"
proof -
  let ?s = "exampleServerless []"
  let ?off = "stubCollaborators (exampleConfig\<lparr>addLayers := False\<rparr>) [nodeInfo] True []"
  let ?web = "stubCollaborators exampleConfig [nodeInfo] True []"
  let ?plain = "stubCollaborators exampleConfig [nodeInfo] False []"
  have cfg: "getConfig ?off svc = exampleConfig\<lparr>addLayers := False\<rparr>"
    "getConfig ?web svc = exampleConfig" "getConfig ?plain svc = exampleConfig" for svc
    by (simp_all add: stubCollaborators_def)
  have flags: "addLayers exampleConfig" "tracingMode exampleConfig = DD_TRACE"
    "tracingMode (exampleConfig\<lparr>addLayers := False\<rparr>) = DD_TRACE"
    by (simp_all add: exampleConfig_def tracingMode_def)
  have web: "hasWebpackPlugin ?web svc" "\<not> hasWebpackPlugin ?plain svc" for svc
    by (simp_all add: stubCollaborators_def)
  have hs: "classifiedBeforePackage ?web ?s = [nodeInfo]"
    "classifiedBeforePackage ?plain ?s = [nodeInfo]"
    by (simp_all add: classifiedBeforePackage_def stubCollaborators_def)
  have rg: "region (provider (configuredService ?web ?s)) = ''us-east-1''"
    "region (provider (configuredService ?plain ?s)) = ''us-east-1''"
    by (simp_all add: configuredService_def stubCollaborators_def exampleServerless_def)
  have init: "calls ?s = []"
    by (simp add: exampleServerless_def)
  show ?thesis
    using layer_block_is_gated [of ?off ?s] layer_block_is_gated [of ?web ?s]
      layer_block_is_gated [of ?plain ?s]
    by (simp add: cfg flags web hs rg init)
qed


text \<open>
  Claim C7. \<^verbatim>\<open>getHandlers\<close> turns the module-type hint into the Node runtime it passes to
  \<^verbatim>\<open>findHandlers\<close>: \<^verbatim>\<open>typescript\<close> gives \<open>NODE_TS\<close>, \<^verbatim>\<open>es6\<close> gives \<open>NODE_ES6\<close>, \<^verbatim>\<open>node\<close>
  gives \<open>NODE\<close>, and an unset hint leaves it undefined. With the classifier of the
  specification in the place of \<^verbatim>\<open>findHandlers\<close>, every function whose runtime string
  (its own or the provider's default) is recognised as Node-family is then classified by
  the hint: \<open>NODE_TS\<close>, \<open>NODE_ES6\<close> or \<open>NODE\<close>.
\<close>

theorem module_type_hint_selects_node_runtime:
  "defaultNodeRuntime (Some typescript) = Some NODE_TS
   \<and> defaultNodeRuntime (Some es6) = Some NODE_ES6
   \<and> defaultNodeRuntime (Some node) = Some NODE
   \<and> defaultNodeRuntime None = None
   \<and> getHandlers ext s hint =
        findHandlers ext (service s) (runtime (provider (service s))) (defaultNodeRuntime hint)
   \<and> (findHandlers ext = findHandlers_spec known
        \<and> (name, fd) \<in> set (service_functions (service s))
        \<and> effectiveRuntime fd (runtime (provider (service s))) = Some r
        \<and> known r = Some t \<and> isNodeFamily t \<longrightarrow>
        \<lparr>info_name = name, info_type = NODE_TS, info_runtime = Some r\<rparr>
          \<in> set (getHandlers ext s (Some typescript))
        \<and> \<lparr>info_name = name, info_type = NODE_ES6, info_runtime = Some r\<rparr>
          \<in> set (getHandlers ext s (Some es6))
        \<and> \<lparr>info_name = name, info_type = NODE, info_runtime = Some r\<rparr>
          \<in> set (getHandlers ext s (Some node)))"
proof -
  have call: "getHandlers ext s h =
      findHandlers ext (service s) (runtime (provider (service s))) (defaultNodeRuntime h)" for h
    by (simp add: getHandlers_def)
  have classified:
    "\<lparr>info_name = name, info_type = t', info_runtime = Some r\<rparr>
       \<in> set (findHandlers_spec known (service s) (runtime (provider (service s))) (Some t'))"
    if "(name, fd) \<in> set (service_functions (service s))"
      and "effectiveRuntime fd (runtime (provider (service s))) = Some r"
      and "known r = Some t" and "isNodeFamily t" for t'
  proof -
    have "classify known (Some r) (Some t') = t'"
      using that(3,4) by (simp add: classify_def)
    then have "(\<lambda>(name, fd).
            \<lparr>info_name = name,
             info_type = classify known (effectiveRuntime fd (runtime (provider (service s)))) (Some t'),
             info_runtime = effectiveRuntime fd (runtime (provider (service s)))\<rparr>) (name, fd)
        = \<lparr>info_name = name, info_type = t', info_runtime = Some r\<rparr>"
      using that(2) by simp
    then show ?thesis
      unfolding findHandlers_spec_def set_map
      using that(1) by (metis (no_types, lifting) image_eqI)
  qed
  show ?thesis
    using classified by (simp add: call)
qed

theorem module_type_hint_selects_node_runtime_witness:
  "findHandlers ((stubCollaborators exampleConfig [] False [])
        \<lparr>findHandlers := findHandlers_spec exampleKnown\<rparr>) = findHandlers_spec exampleKnown
   \<and> (''web'', exampleFunction None None)
        \<in> set (service_functions (service (exampleServerless [(''web'', exampleFunction None None)])))
   \<and> effectiveRuntime (exampleFunction None None)
        (runtime (provider (service (exampleServerless [(''web'', exampleFunction None None)]))))
       = Some ''nodejs18.x''
   \<and> exampleKnown ''nodejs18.x'' = Some NODE \<and> isNodeFamily NODE
   \<and> \<lparr>info_name = ''web'', info_type = NODE_TS, info_runtime = Some ''nodejs18.x''\<rparr>
       \<in> set (getHandlers ((stubCollaborators exampleConfig [] False [])
                  \<lparr>findHandlers := findHandlers_spec exampleKnown\<rparr>)
               (exampleServerless [(''web'', exampleFunction None None)]) (Some typescript))"
proof -
  let ?ext = "(stubCollaborators exampleConfig [] False [])
                \<lparr>findHandlers := findHandlers_spec exampleKnown\<rparr>"
  let ?fd = "exampleFunction None None"
  let ?s = "exampleServerless [(''web'', ?fd)]"
  have a: "findHandlers ?ext = findHandlers_spec exampleKnown"
    by simp
  have b: "(''web'', ?fd) \<in> set (service_functions (service ?s))"
    by (simp add: exampleServerless_def)
  have c: "effectiveRuntime ?fd (runtime (provider (service ?s))) = Some ''nodejs18.x''"
    by (simp add: effectiveRuntime_def exampleFunction_def exampleServerless_def)
  have d: "exampleKnown ''nodejs18.x'' = Some NODE"
    by (simp add: exampleKnown_def)
  have e: "isNodeFamily NODE"
    by (simp add: isNodeFamily_def)
  show ?thesis
    using module_type_hint_selects_node_runtime
      [of ?ext ?s _ exampleKnown "''web''" ?fd "''nodejs18.x''" NODE] a b c d e
    by blast
qed

text \<open>
  Claim C8 as stated, that the pipeline records a diagnostic for every function
  classified \<^verbatim>\<open>UNSUPPORTED\<close>, fails when \<^verbatim>\<open>addLayers\<close> is off: \<^verbatim>\<open>debugLogHandlers\<close> is
  called inside the layer block only. Here the function \<^verbatim>\<open>hello\<close> with runtime \<^verbatim>\<open>go1.x\<close>
  is classified \<^verbatim>\<open>UNSUPPORTED\<close>, and neither phase logs a line that names it.
\<close>

theorem unsupported_without_layers_counterexample:
  "classifiedBeforePackage
       (stubCollaborators (exampleConfig\<lparr>addLayers := False\<rparr>) [goInfo] False [])
       (exampleServerless [(''hello'', exampleFunction (Some ''go1.x'') None)]) = [goInfo]
   \<and> info_name goInfo = ''hello'' \<and> info_type goInfo = UNSUPPORTED
   \<and> cli_log (beforePackageFunction
        (stubCollaborators (exampleConfig\<lparr>addLayers := False\<rparr>) [goInfo] False [])
        (exampleServerless [(''hello'', exampleFunction (Some ''go1.x'') None)]))
       = [''Auto instrumenting functions with Datadog'',
          ''Skipping adding Lambda Layers, make sure you are packaging them yourself'']
   \<and> cli_log (afterPackageFunction
        (stubCollaborators (exampleConfig\<lparr>addLayers := False\<rparr>) [goInfo] False [])
        (exampleServerless [(''hello'', exampleFunction (Some ''go1.x'') None)]))
       = [''Adding service and environment tags to functions'']"
proof -
  let ?cfg = "exampleConfig\<lparr>addLayers := False\<rparr>"
  let ?ext = "stubCollaborators ?cfg [goInfo] False []"
  let ?s = "exampleServerless [(''hello'', exampleFunction (Some ''go1.x'') None)]"
  have cfg: "getConfig ?ext svc = ?cfg" for svc
    by (simp add: stubCollaborators_def)
  have hs: "classifiedBeforePackage ?ext ?s = [goInfo]"
    by (simp add: classifiedBeforePackage_def stubCollaborators_def)
  have info: "info_name goInfo = ''hello''" "info_type goInfo = UNSUPPORTED"
    by (simp_all add: goInfo_def)
  have init: "cli_log ?s = []"
    by (simp add: exampleServerless_def)
  have before: "cli_log (beforePackageFunction ?ext ?s)
      = [''Auto instrumenting functions with Datadog'',
         ''Skipping adding Lambda Layers, make sure you are packaging them yourself'']"
    by (simp add: beforePackageFunction_cli_log cfg init)
  have fw: "forwarder ?cfg = Some ''arn:aws:lambda:us-east-1:1:function:forwarder''"
    "enableTags ?cfg"
    by (simp_all add: exampleConfig_def)
  have "addCloudWatchForwarderSubscriptions ?ext (service ?s)
          ''arn:aws:lambda:us-east-1:1:function:forwarder'' = (service ?s, [])"
    by (simp add: stubCollaborators_def)
  then have "cli_log (subscribeForwarder ?ext ?cfg ?s) = cli_log ?s @ []"
    by (rule subscribeForwarder_truthy(2) [OF fw(1), rotated]) simp
  then have after: "cli_log (afterPackageFunction ?ext ?s)
      = [''Adding service and environment tags to functions'']"
    by (simp add: afterPackageFunction_cli_log cfg init fw(2))
  show ?thesis
    by (simp only: hs info before after simp_thms)
qed

lemma debugLogHandlers_keeps_lines:
  "set (cli_log s) \<subseteq> set (cli_log (debugLogHandlers hs s))"
proof (induction hs arbitrary: s)
  case Nil
  show ?case by simp
next
  case (Cons h hs)
  show ?case
    unfolding debugLogHandlers.simps
    by (rule subset_trans [OF _ Cons.IH]) (auto split: option.split)
qed

lemma debugLogHandlers_logs_unsupported:
  assumes "h \<in> set hs" and "info_type h = UNSUPPORTED"
  shows "(case info_runtime h of
            None \<Rightarrow> ''Unable to determine runtime for function '' @ info_name h
          | Some r \<Rightarrow> ''Unable to add Lambda Layers to function '' @ info_name h
                       @ '' with runtime '' @ r)
         \<in> set (cli_log (debugLogHandlers hs s))"
  using assms
proof (induction hs arbitrary: s)
  case Nil
  then show ?case by simp
next
  case (Cons a hs)
  show ?case
  proof (cases "h = a")
    case True
    let ?line = "case info_runtime h of
            None \<Rightarrow> ''Unable to determine runtime for function '' @ info_name h
          | Some r \<Rightarrow> ''Unable to add Lambda Layers to function '' @ info_name h
                       @ '' with runtime '' @ r"
    let ?s' = "log ?line s"
    have step: "debugLogHandlers (a # hs) s = debugLogHandlers hs ?s'"
      using True Cons.prems(2) by (simp split: option.split)
    have "?line \<in> set (cli_log ?s')"
      by simp
    then show ?thesis
      using debugLogHandlers_keeps_lines [of ?s' hs] by (auto simp only: step)
  next
    case False
    then have "h \<in> set hs"
      using Cons.prems(1) by simp
    then show ?thesis
      unfolding debugLogHandlers.simps
      by (rule Cons.IH) (rule Cons.prems(2))
  qed
qed

lemma length_cli_log_debugLogHandlers:
  "length (cli_log (debugLogHandlers hs s)) =
     length (cli_log s) + length (filter (\<lambda>h. info_type h = UNSUPPORTED) hs)"
  by (induction hs arbitrary: s) (simp_all split: option.split)

text \<open>
  Claim C8, as amended. When \<^verbatim>\<open>addLayers\<close> is on, the before-package phase logs, for every
  handler classified \<^verbatim>\<open>UNSUPPORTED\<close>, a line naming the function: that the runtime could
  not be determined when the runtime string is undefined, and otherwise a line with the
  function name and the runtime string. Each unsupported handler gets its line wherever
  it stands in the list, the log grows by exactly one line per unsupported handler after
  the two lines that open the phase, and the phase runs on to \<^verbatim>\<open>enableTracing\<close>.
\<close>

theorem unsupported_handlers_are_reported:
  assumes "addLayers (getConfig ext (service s))"
    and "h \<in> set (classifiedBeforePackage ext s)"
    and "info_type h = UNSUPPORTED"
  shows "(case info_runtime h of
            None \<Rightarrow> ''Unable to determine runtime for function '' @ info_name h
          | Some r \<Rightarrow> ''Unable to add Lambda Layers to function '' @ info_name h
                       @ '' with runtime '' @ r)
           \<in> set (cli_log (beforePackageFunction ext s))
         \<and> length (cli_log (beforePackageFunction ext s)) =
             length (cli_log s) + 2
               + length (filter (\<lambda>h. info_type h = UNSUPPORTED) (classifiedBeforePackage ext s))
         \<and> last (calls (beforePackageFunction ext s))
             = EnableTracing (tracingMode (getConfig ext (service s)))"
proof (intro conjI)
  show "(case info_runtime h of
            None \<Rightarrow> ''Unable to determine runtime for function '' @ info_name h
          | Some r \<Rightarrow> ''Unable to add Lambda Layers to function '' @ info_name h
                       @ '' with runtime '' @ r)
           \<in> set (cli_log (beforePackageFunction ext s))"
    using assms(1) debugLogHandlers_logs_unsupported [OF assms(2,3)]
    by (simp add: beforePackageFunction_cli_log)
  show "length (cli_log (beforePackageFunction ext s)) =
             length (cli_log s) + 2
               + length (filter (\<lambda>h. info_type h = UNSUPPORTED) (classifiedBeforePackage ext s))"
    using assms(1)
    by (simp add: beforePackageFunction_cli_log length_cli_log_debugLogHandlers)
  show "last (calls (beforePackageFunction ext s))
             = EnableTracing (tracingMode (getConfig ext (service s)))"
    by (simp add: beforePackageFunction_calls)
qed

theorem unsupported_handlers_are_reported_witness:
  "addLayers exampleConfig
   \<and> classifiedBeforePackage (stubCollaborators exampleConfig [nodeInfo, goInfo, unknownInfo] False [])
        (exampleServerless []) = [nodeInfo, goInfo, unknownInfo]
   \<and> info_type goInfo = UNSUPPORTED \<and> info_type unknownInfo = UNSUPPORTED
   \<and> ''Unable to add Lambda Layers to function hello with runtime go1.x''
       \<in> set (cli_log (beforePackageFunction
            (stubCollaborators exampleConfig [nodeInfo, goInfo, unknownInfo] False [])
            (exampleServerless [])))
   \<and> ''Unable to determine runtime for function world''
       \<in> set (cli_log (beforePackageFunction
            (stubCollaborators exampleConfig [nodeInfo, goInfo, unknownInfo] False [])
            (exampleServerless [])))
   \<and> length (cli_log (beforePackageFunction
            (stubCollaborators exampleConfig [nodeInfo, goInfo, unknownInfo] False [])
            (exampleServerless []))) = 4"
proof -
  let ?ext = "stubCollaborators exampleConfig [nodeInfo, goInfo, unknownInfo] False []"
  let ?s = "exampleServerless []"
  have cfg: "getConfig ?ext svc = exampleConfig" for svc
    by (simp add: stubCollaborators_def)
  have on: "addLayers (getConfig ?ext (service ?s))"
    unfolding cfg by (simp add: exampleConfig_def)
  have hs: "classifiedBeforePackage ?ext ?s = [nodeInfo, goInfo, unknownInfo]"
    by (simp add: classifiedBeforePackage_def stubCollaborators_def)
  have go: "goInfo \<in> set (classifiedBeforePackage ?ext ?s)"
    and un: "unknownInfo \<in> set (classifiedBeforePackage ?ext ?s)"
    by (simp_all add: hs)
  have ty: "info_type goInfo = UNSUPPORTED" "info_type unknownInfo = UNSUPPORTED"
    "info_type nodeInfo = NODE"
    by (simp_all add: goInfo_def unknownInfo_def nodeInfo_def)
  have flds: "info_runtime goInfo = Some ''go1.x''" "info_name goInfo = ''hello''"
    "info_runtime unknownInfo = None" "info_name unknownInfo = ''world''"
    by (simp_all add: goInfo_def unknownInfo_def)
  have init: "cli_log ?s = []"
    by (simp add: exampleServerless_def)
  show ?thesis
    using unsupported_handlers_are_reported [OF on go ty(1)]
      unsupported_handlers_are_reported [OF on un ty(2)] on
    by (simp add: cfg hs ty flds init)
qed

text \<open>
  Claim C9. The hook table is a routing map, many to one: no event name is registered
  twice, every registered event is bound to one of the two phase entry points, the
  before-side events (package initialize, deploy-function, local invoke, offline start,
  step-functions offline start, datadog generate) are bound to
  \<^verbatim>\<open>beforePackageFunction\<close>, and the after-side events of package, deploy-function and
  local invoke, with datadog clean, are bound to \<^verbatim>\<open>afterPackageFunction\<close>.
\<close>

theorem hooks_route_events_to_two_phases:
  "distinct (map fst hooks)
   \<and> set (map snd hooks) = {BeforePackageFunction, AfterPackageFunction}
   \<and> map fst (filter (\<lambda>(event, h). h = BeforePackageFunction) hooks) =
       [''after:datadog:generate:init'', ''after:package:initialize'',
        ''before:deploy:function:packageFunction'', ''before:invoke:local:invoke'',
        ''before:offline:start:init'', ''before:step-functions-offline:start'']
   \<and> map fst (filter (\<lambda>(event, h). h = AfterPackageFunction) hooks) =
       [''after:datadog:clean:init'', ''after:deploy:function:packageFunction'',
        ''after:invoke:local:invoke'', ''after:package:createDeploymentArtifacts'']
   \<and> trigger ext ''after:package:initialize'' s = beforePackageFunction ext s
   \<and> trigger ext ''after:package:createDeploymentArtifacts'' s = afterPackageFunction ext s"
proof -
  have "distinct (map fst hooks)"
    by (simp add: hooks_def)
  moreover have "set (map snd hooks) = {BeforePackageFunction, AfterPackageFunction}"
    by (simp add: hooks_def insert_commute)
  moreover have "map fst (filter (\<lambda>(event, h). h = BeforePackageFunction) hooks) =
       [''after:datadog:generate:init'', ''after:package:initialize'',
        ''before:deploy:function:packageFunction'', ''before:invoke:local:invoke'',
        ''before:offline:start:init'', ''before:step-functions-offline:start'']"
    by (simp add: hooks_def)
  moreover have "map fst (filter (\<lambda>(event, h). h = AfterPackageFunction) hooks) =
       [''after:datadog:clean:init'', ''after:deploy:function:packageFunction'',
        ''after:invoke:local:invoke'', ''after:package:createDeploymentArtifacts'']"
    by (simp add: hooks_def)
  moreover have "trigger ext ''after:package:initialize'' s = beforePackageFunction ext s"
    by (simp add: trigger_def hooks_def runHook_def)
  moreover have "trigger ext ''after:package:createDeploymentArtifacts'' s
      = afterPackageFunction ext s"
    by (simp add: trigger_def hooks_def runHook_def)
  ultimately show ?thesis
    by simp
qed

text \<open>
  Claim C10. Every run of the after-package phase ends by calling \<^verbatim>\<open>redirectHandlers\<close>,
  under no flag of its own: the call gets all handlers \<^verbatim>\<open>getHandlers\<close> returns for the
  configured module type and the resolved \<^verbatim>\<open>addLayers\<close> flag, and the phase returns the
  service that call leaves. With no forwarder and with tags disabled it is the only call
  of the phase.
\<close>

theorem redirectHandlers_runs_unconditionally:
  "last (calls (afterPackageFunction ext s)) =
      RedirectHandlers (classifiedAfterPackage ext s) (addLayers (getConfig ext (service s)))
   \<and> service (afterPackageFunction ext s) =
      redirectHandlers ext (classifiedAfterPackage ext s) (addLayers (getConfig ext (service s)))
        (service (tagFunctions (getConfig ext (service s))
           (subscribeForwarder ext (getConfig ext (service s)) s)))
   \<and> (falsy (forwarder (getConfig ext (service s))) \<and> \<not> enableTags (getConfig ext (service s)) \<longrightarrow>
        classifiedAfterPackage ext s = getHandlers ext s (nodeModuleType (getConfig ext (service s)))
        \<and> calls (afterPackageFunction ext s) =
            calls s @ [RedirectHandlers (getHandlers ext s (nodeModuleType (getConfig ext (service s))))
                         (addLayers (getConfig ext (service s)))])"
proof (intro conjI impI)
  show "last (calls (afterPackageFunction ext s)) =
      RedirectHandlers (classifiedAfterPackage ext s) (addLayers (getConfig ext (service s)))"
    by (simp add: afterPackageFunction_calls)
  show "service (afterPackageFunction ext s) =
      redirectHandlers ext (classifiedAfterPackage ext s) (addLayers (getConfig ext (service s)))
        (service (tagFunctions (getConfig ext (service s))
           (subscribeForwarder ext (getConfig ext (service s)) s)))"
    by (rule afterPackageFunction_service)
next
  assume off: "falsy (forwarder (getConfig ext (service s))) \<and> \<not> enableTags (getConfig ext (service s))"
  then have same: "tagFunctions (getConfig ext (service s))
      (subscribeForwarder ext (getConfig ext (service s)) s) = s"
    by (simp add: service_subscribeForwarder_falsy tagFunctions_def)
  then show hs: "classifiedAfterPackage ext s
      = getHandlers ext s (nodeModuleType (getConfig ext (service s)))"
    by (simp add: classifiedAfterPackage_def)
  from off show "calls (afterPackageFunction ext s) =
      calls s @ [RedirectHandlers (getHandlers ext s (nodeModuleType (getConfig ext (service s))))
                   (addLayers (getConfig ext (service s)))]"
    by (simp add: afterPackageFunction_calls service_subscribeForwarder_falsy hs)
qed

theorem redirectHandlers_runs_unconditionally_witness:
  "falsy (forwarder (exampleConfig\<lparr>forwarder := None, enableTags := False, addLayers := False\<rparr>))
   \<and> \<not> enableTags (exampleConfig\<lparr>forwarder := None, enableTags := False, addLayers := False\<rparr>)
   \<and> calls (afterPackageFunction
        (stubCollaborators (exampleConfig\<lparr>forwarder := None, enableTags := False, addLayers := False\<rparr>)
           [nodeInfo, goInfo] False [])
        (exampleServerless []))
       = [RedirectHandlers [nodeInfo, goInfo] False]"
proof -
  let ?cfg = "exampleConfig\<lparr>forwarder := None, enableTags := False, addLayers := False\<rparr>"
  let ?ext = "stubCollaborators ?cfg [nodeInfo, goInfo] False []"
  let ?s = "exampleServerless []"
  have cfg: "getConfig ?ext svc = ?cfg" for svc
    by (simp add: stubCollaborators_def)
  have hs: "getHandlers ?ext ?s mt = [nodeInfo, goInfo]" for mt
    by (simp add: getHandlers_def stubCollaborators_def)
  have init: "calls ?s = []"
    by (simp add: exampleServerless_def)
  show ?thesis
    using redirectHandlers_runs_unconditionally [of ?ext ?s]
    by (simp add: cfg hs init falsy_def)
qed

end
